theory Spec2Isabelle
  imports Main
begin

section \<open>Configuration, JSON shapes and errors\<close>

text \<open>
  \<^verbatim>\<open>config.auth\<close> of \<^verbatim>\<open>config.ts\<close>: every field is
  \<^verbatim>\<open>process.env.X || ''\<close>, so a missing variable is the empty string.
\<close>

record auth_config =
  email :: string
  password :: string
  clientId :: string
  clientSecret :: string
  cfg_userId :: string

text \<open>
  Numbers are integers: the tool schemas of \<^verbatim>\<open>functions.ts\<close> declare level
  and duration as \<^verbatim>\<open>integer\<close>, and the levels and durations the vendor reports are
  whole. A JSON field the client reads is an option: \<open>None\<close> is an absent
  (\<^verbatim>\<open>undefined\<close> or \<^verbatim>\<open>null\<close>) field.
\<close>

record stage_segment =
  stage :: "string option"
  seg_duration :: "int option"

record hrv_data =
  hrv_score :: "int option"
  average :: "int option"
  minimum :: "int option"
  maximum :: "int option"

record respiratory_data =
  rr_score :: "int option"

record quality_score =
  sqs_hrv :: "hrv_data option"
  sqs_respiratoryRate :: "respiratory_data option"

record day_record =
  score :: "int option"
  sleepQualityScore :: "quality_score option"
  tnt :: "int option"
  stages :: "stage_segment list option"

record current_state =
  cs_level :: "int option"

text \<open>
  A response body, as the fields this client reads from \<^verbatim>\<open>response.data\<close>:
  the token endpoint's \<^verbatim>\<open>access_token\<close>, an error body's
  \<^verbatim>\<open>message\<close>, the temperature endpoint's \<^verbatim>\<open>currentState\<close> and
  \<^verbatim>\<open>currentLevel\<close>, the trends endpoint's \<^verbatim>\<open>days\<close>.
\<close>

record body =
  access_token :: "string option"
  message :: "string option"
  currentState :: "current_state option"
  currentLevel :: "int option"
  days :: "day_record list option"

definition empty_body :: body where
  "empty_body = \<lparr>access_token = None, message = None, currentState = None,
     currentLevel = None, days = None\<rparr>"

datatype verb = GET | PUT

text \<open>The request bodies \<^verbatim>\<open>setTempLevel\<close> sends.\<close>

datatype req_data =
    NoData
  | CurrentLevel int
  | TimeBased int int

record request_config =
  rq_verb :: verb
  url :: string
  params :: "(string \<times> string) list"
  rq_data :: req_data
  authorization :: "string option"

record response =
  status :: nat
  rsp_data :: body

text \<open>
  JavaScript errors: a plain \<^verbatim>\<open>Error\<close> with its message, a
  \<^verbatim>\<open>RangeError\<close>, a \<^verbatim>\<open>TypeError\<close>, and axios's error with
  \<^verbatim>\<open>error.response\<close> (absent on a network failure), \<^verbatim>\<open>error.message\<close>
  and \<^verbatim>\<open>error.config\<close>.
\<close>

datatype js_error =
    Error string
  | RangeError string
  | TypeError string
  | AxiosError "response option" string "request_config option"

section \<open>The vendor and the network\<close>

text \<open>
  The login payload of \<^verbatim>\<open>authenticate\<close>:
  client id, client secret, grant type, username, password.
\<close>

record auth_payload =
  client_id :: string
  client_secret :: string
  grant_type :: string
  username :: string
  pl_password :: string

datatype call = AuthCall auth_payload | ApiCall request_config

datatype reply = Reply nat body | NoReply string

text \<open>
  The vendor is any deterministic function of the calls made so far, the current one last.
  The client state holds \<^verbatim>\<open>this.token\<close>, \<^verbatim>\<open>this.userId\<close> and, as a
  ghost field, the network calls issued so far in order.
\<close>

type_synonym vendor = "call list \<Rightarrow> reply"

record client_state =
  token :: "string option"
  this_userId :: "string option"
  calls :: "call list"

definition truthy :: "string option \<Rightarrow> bool" where
  "truthy v = (case v of None \<Rightarrow> False | Some x \<Rightarrow> x \<noteq> [])"

definition truthy_num :: "int option \<Rightarrow> bool" where
  "truthy_num v = (case v of None \<Rightarrow> False | Some x \<Rightarrow> x \<noteq> 0)"

fun string_of_nat :: "nat \<Rightarrow> string" where
  "string_of_nat n =
     (if n < 10 then [char_of (48 + n)]
      else string_of_nat (n div 10) @ [char_of (48 + n mod 10)])"

declare string_of_nat.simps [simp del]

text \<open>
  One HTTP exchange: the call is appended to the log and the vendor answers. axios
  resolves a status in \<open>[200, 300)\<close> and rejects every other with an
  \<^verbatim>\<open>AxiosError\<close> carrying the response; a network failure has no response.
\<close>

definition send :: "vendor \<Rightarrow> client_state \<Rightarrow> call \<Rightarrow> reply \<times> client_state" where
  "send w s c = (let cs = calls s @ [c] in (w cs, s\<lparr>calls := cs\<rparr>))"

definition settle :: "request_config option \<Rightarrow> reply \<Rightarrow> js_error + response" where
  "settle rc r =
     (case r of
        Reply st d \<Rightarrow>
          if 200 \<le> st \<and> st < 300 then Inr \<lparr>status = st, rsp_data = d\<rparr>
          else Inl (AxiosError (Some \<lparr>status = st, rsp_data = d\<rparr>)
                 (''Request failed with status code '' @ string_of_nat st) rc)
      | NoReply m \<Rightarrow> Inl (AxiosError None m rc))"

text \<open>\<^verbatim>\<open>error.response?.data?.message || error.message\<close>\<close>

definition error_detail :: "response option \<Rightarrow> string \<Rightarrow> string" where
  "error_detail r m =
     (case r of
        None \<Rightarrow> m
      | Some rsp \<Rightarrow>
          (case message (rsp_data rsp) of
             None \<Rightarrow> m
           | Some x \<Rightarrow> if x \<noteq> [] then x else m))"

section \<open>The authenticated client\<close>

definition login_payload :: "auth_config \<Rightarrow> auth_payload" where
  "login_payload cfg =
     \<lparr>client_id = clientId cfg, client_secret = clientSecret cfg,
      grant_type = ''password'', username = email cfg, pl_password = password cfg\<rparr>"

text \<open>
  \<^verbatim>\<open>authenticate\<close>: the credentials check throws outside the
  \<^verbatim>\<open>try\<close>; inside it, an \<^verbatim>\<open>AxiosError\<close> of the login call is
  rethrown with its detail, and every other error, the
  \<^verbatim>\<open>Invalid authentication response\<close> thrown for a missing token included, is
  caught by the same \<^verbatim>\<open>catch\<close> and rethrown as
  \<^verbatim>\<open>Failed to authenticate with Eight Sleep\<close>. The token client has no
  interceptors, and the \<^verbatim>\<open>config\<close> of its errors is never read.
\<close>

definition authenticate ::
  "auth_config \<Rightarrow> vendor \<Rightarrow> client_state \<Rightarrow> (js_error + unit) \<times> client_state" where
  "authenticate cfg w s =
     (if email cfg = [] \<or> password cfg = [] then
        (Inl (Error ''Missing required credentials. Please check your .env file for EIGHT_SLEEP_EMAIL and EIGHT_SLEEP_PASSWORD''), s)
      else
        (case send w s (AuthCall (login_payload cfg)) of (r, s1) \<Rightarrow>
          (case settle None r of
             Inl (AxiosError rsp m c) \<Rightarrow>
               (Inl (Error (''Failed to authenticate with Eight Sleep: '' @ error_detail rsp m)), s1)
           | Inl e \<Rightarrow> (Inl (Error ''Failed to authenticate with Eight Sleep''), s1)
           | Inr rsp \<Rightarrow>
               (if \<not> truthy (access_token (rsp_data rsp)) then
                  (Inl (Error ''Failed to authenticate with Eight Sleep''), s1)
                else
                  (Inr (), s1\<lparr>token := access_token (rsp_data rsp),
                                this_userId := Some (cfg_userId cfg)\<rparr>)))))"

text \<open>
  The request interceptor: authenticate lazily when no token is held, then attach the
  bearer header when a token is held.
\<close>

definition bearer :: "request_config \<Rightarrow> string option \<Rightarrow> request_config" where
  "bearer rc tok =
     (case tok of
        None \<Rightarrow> rc
      | Some t \<Rightarrow> if t \<noteq> [] then rc\<lparr>authorization := Some (''Bearer '' @ t)\<rparr> else rc)"

definition request_interceptor ::
  "auth_config \<Rightarrow> vendor \<Rightarrow> client_state \<Rightarrow> request_config
     \<Rightarrow> (js_error + request_config) \<times> client_state" where
  "request_interceptor cfg w s rc =
     (case (if \<not> truthy (token s) then authenticate cfg w s else (Inr (), s)) of
        (Inl e, s1) \<Rightarrow> (Inl e, s1)
      | (Inr u, s1) \<Rightarrow> (Inr (bearer rc (token s1)), s1))"

text \<open>
  \<^verbatim>\<open>this.client.request\<close>: the request interceptor, the exchange, then the
  response interceptor. A rejection of the request interceptor skips the exchange and
  reaches the response interceptor's error handler as well. On a 401 the handler clears
  the token, authenticates, and calls \<^verbatim>\<open>this.client.request(config)\<close> again,
  which runs the same interceptors: the function is recursive, and \<open>None\<close> is a
  request that never settles.
\<close>

partial_function (option) request ::
  "auth_config \<Rightarrow> vendor \<Rightarrow> client_state \<Rightarrow> request_config
     \<Rightarrow> ((js_error + response) \<times> client_state) option" where
  "request cfg w s rc =
     (case (case request_interceptor cfg w s rc of
              (Inl e, s1) \<Rightarrow> (Inl e, s1)
            | (Inr rc1, s1) \<Rightarrow>
                (case send w s1 (ApiCall rc1) of (r, s2) \<Rightarrow> (settle (Some rc1) r, s2))) of
        (Inr rsp, s2) \<Rightarrow> Some (Inr rsp, s2)
      | (Inl (AxiosError (Some rsp) m c), s2) \<Rightarrow>
          (if status rsp = 401 then
             (case authenticate cfg w (s2\<lparr>token := None\<rparr>) of
                (Inl e, s3) \<Rightarrow> Some (Inl e, s3)
              | (Inr u, s3) \<Rightarrow>
                  (case c of
                     Some rc2 \<Rightarrow>
                       if truthy (token s3) then request cfg w s3 (bearer rc2 (token s3))
                       else Some (Inl (AxiosError (Some rsp) m c), s3)
                   | None \<Rightarrow> Some (Inl (AxiosError (Some rsp) m c), s3)))
           else Some (Inl (AxiosError (Some rsp) m c), s2))
      | (Inl e, s2) \<Rightarrow> Some (Inl e, s2))"

definition client_get ::
  "auth_config \<Rightarrow> vendor \<Rightarrow> client_state \<Rightarrow> string \<Rightarrow> (string \<times> string) list
     \<Rightarrow> ((js_error + response) \<times> client_state) option" where
  "client_get cfg w s u ps =
     request cfg w s \<lparr>rq_verb = GET, url = u, params = ps, rq_data = NoData, authorization = None\<rparr>"

definition client_put ::
  "auth_config \<Rightarrow> vendor \<Rightarrow> client_state \<Rightarrow> string \<Rightarrow> req_data
     \<Rightarrow> ((js_error + response) \<times> client_state) option" where
  "client_put cfg w s u d =
     request cfg w s \<lparr>rq_verb = PUT, url = u, params = [], rq_data = d, authorization = None\<rparr>"

section \<open>The date arithmetic of \<^verbatim>\<open>getSleepData\<close>\<close>

text \<open>
  \<^verbatim>\<open>new Date(new Date(startDate).getTime() + 24 * 60 * 60 * 1000).toISOString().split('T')[0]\<close>,
  after ECMAScript: a date-only string \<^verbatim>\<open>YYYY-MM-DD\<close> of a calendar date is UTC
  midnight of that day; what the engine makes of any other string is the parameter
  \<open>legacy\<close> (\<open>None\<close> is an invalid date); \<^verbatim>\<open>toISOString\<close> throws a
  \<^verbatim>\<open>RangeError\<close> on an invalid date.
\<close>

definition leap :: "int \<Rightarrow> bool" where
  "leap y = (y mod 4 = 0 \<and> (y mod 100 \<noteq> 0 \<or> y mod 400 = 0))"

definition DayFromYear :: "int \<Rightarrow> int" where
  "DayFromYear y =
     365 * (y - 1970) + (y - 1969) div 4 - (y - 1901) div 100 + (y - 1601) div 400"

text \<open>The first day of month \<open>m\<close> (1 to 12) within its year, counted from 0.\<close>

definition month_start :: "bool \<Rightarrow> int \<Rightarrow> int" where
  "month_start lp m =
     (let l = (if lp then 1 else 0) in
      if m \<le> 1 then 0 else if m = 2 then 31 else if m = 3 then 59 + l
      else if m = 4 then 90 + l else if m = 5 then 120 + l else if m = 6 then 151 + l
      else if m = 7 then 181 + l else if m = 8 then 212 + l else if m = 9 then 243 + l
      else if m = 10 then 273 + l else if m = 11 then 304 + l else 334 + l)"

definition days_in_month :: "int \<Rightarrow> int \<Rightarrow> int" where
  "days_in_month y m =
     (if m = 2 then (if leap y then 29 else 28)
      else if m = 4 \<or> m = 6 \<or> m = 9 \<or> m = 11 then 30 else 31)"

definition MakeDay :: "int \<Rightarrow> int \<Rightarrow> int \<Rightarrow> int" where
  "MakeDay y m d = DayFromYear y + month_start (leap y) m + (d - 1)"

definition is_digit :: "char \<Rightarrow> bool" where
  "is_digit c = (48 \<le> (of_char c :: nat) \<and> (of_char c :: nat) \<le> 57)"

definition digit_val :: "char \<Rightarrow> int" where
  "digit_val c = int (of_char c) - 48"

definition parse_iso_date :: "string \<Rightarrow> (int \<times> int \<times> int) option" where
  "parse_iso_date str =
     (case str of
        [y1, y2, y3, y4, s1, m1, m2, s2, d1, d2] \<Rightarrow>
          (let y = 1000 * digit_val y1 + 100 * digit_val y2 + 10 * digit_val y3 + digit_val y4;
               m = 10 * digit_val m1 + digit_val m2;
               d = 10 * digit_val d1 + digit_val d2
           in if list_all is_digit [y1, y2, y3, y4, m1, m2, d1, d2]
                 \<and> s1 = CHR ''-'' \<and> s2 = CHR ''-''
                 \<and> 1 \<le> m \<and> m \<le> 12 \<and> 1 \<le> d \<and> d \<le> days_in_month y m
              then Some (y, m, d) else None)
      | _ \<Rightarrow> None)"

definition Date_parse :: "(string \<Rightarrow> int option) \<Rightarrow> string \<Rightarrow> int option" where
  "Date_parse legacy str =
     (case parse_iso_date str of
        Some (y, m, d) \<Rightarrow> Some (86400000 * MakeDay y m d)
      | None \<Rightarrow> legacy str)"

definition TimeClip :: "int \<Rightarrow> int option" where
  "TimeClip t = (if \<bar>t\<bar> \<le> 8640000000000000 then Some t else None)"

text \<open>A year has 365 or 366 days, so the search for the year of a day number ends.\<close>

lemma div_step:
  assumes "1 < (k::int)"
  shows "(a + 1) div k = a div k + (if (a + 1) mod k = 0 then 1 else 0)"
proof -
  have k0: "k \<noteq> 0" "0 < k" using assms by auto
  have r: "0 \<le> a mod k" "a mod k < k" using k0 by auto
  have e: "a + 1 = k * (a div k) + (a mod k + 1)" by simp
  have one: "1 div k = 0" "1 mod k = 1" using assms by (simp_all add: div_pos_pos_trivial mod_pos_pos_trivial)
  show ?thesis
  proof (cases "a mod k + 1 < k")
    case True
    have "(a mod k + 1) div k = 0" using True r by (simp add: div_pos_pos_trivial)
    then have d: "(a + 1) div k = a div k"
      using div_add1_eq [of a 1 k] one by simp
    have "(a mod k + 1) mod k = a mod k + 1" using True r by (simp add: mod_pos_pos_trivial)
    then have m: "(a + 1) mod k = a mod k + 1"
      using mod_add_eq [of a k 1] one by simp
    show ?thesis using d m r by simp
  next
    case False
    then have f: "a mod k + 1 = k" using r by linarith
    have g: "a + 1 = k * (a div k + 1)" using e [unfolded f] by (simp add: distrib_left)
    have d: "(a + 1) div k = a div k + 1"
      using g k0 by simp
    have m: "(a + 1) mod k = 0"
      using g k0 by simp
    show ?thesis using d m by simp
  qed
qed

lemma mod_shift: "((y::int) - c * k) mod k = y mod k"
  using mod_mult_self1 [of y "- c" k] by simp

lemma DayFromYear_Suc: "DayFromYear (y + 1) = DayFromYear y + (if leap y then 366 else 365)"
proof -
  define A where "A = (y - 1969) div 4"
  define B where "B = (y - 1901) div 100"
  define C where "C = (y - 1601) div 400"
  define p where "p = (y mod 4 = 0)"
  define q where "q = (y mod 100 = 0)"
  define r where "r = (y mod 400 = 0)"
  have a: "(y - 1968) div 4 = A + (if p then 1 else 0)"
    unfolding A_def p_def using div_step [of 4 "y - 1969"] mod_shift [of y 492 4] by simp
  have b: "(y - 1900) div 100 = B + (if q then 1 else 0)"
    unfolding B_def q_def using div_step [of 100 "y - 1901"] mod_shift [of y 19 100] by simp
  have c: "(y - 1600) div 400 = C + (if r then 1 else 0)"
    unfolding C_def r_def using div_step [of 400 "y - 1601"] mod_shift [of y 4 400] by simp
  have d: "r \<Longrightarrow> q"
    unfolding r_def q_def using mod_mod_cancel [of 100 400 y] by simp
  have e: "q \<Longrightarrow> p"
    unfolding q_def p_def using mod_mod_cancel [of 4 100 y] by simp
  have l: "leap y = (p \<and> (\<not> q \<or> r))"
    unfolding leap_def p_def q_def r_def by simp
  have "DayFromYear (y + 1) = 365 * (y - 1969) + (y - 1968) div 4 - (y - 1900) div 100 + (y - 1600) div 400"
    unfolding DayFromYear_def by simp
  also have "\<dots> = 365 * (y - 1969) + (A + (if p then 1 else 0)) - (B + (if q then 1 else 0)) + (C + (if r then 1 else 0))"
    unfolding a b c by (rule refl)
  also have "\<dots> = (365 * (y - 1970) + A - B + C) + (if leap y then 366 else 365)"
    unfolding l using d e by (cases p; cases q; cases r; simp)
  also have "365 * (y - 1970) + A - B + C = DayFromYear y"
    unfolding DayFromYear_def A_def B_def C_def by (rule refl)
  finally show ?thesis .
qed

lemma DayFromYear_strict: "DayFromYear y < DayFromYear (y + 1)"
  using DayFromYear_Suc [of y] by (simp split: if_splits)

text \<open>The year of a day number: the largest \<open>y\<close> with \<open>DayFromYear y \<le> day\<close>.\<close>

function year_search :: "int \<Rightarrow> int \<Rightarrow> int" where
  "year_search day y = (if DayFromYear (y + 1) \<le> day then year_search day (y + 1) else y)"
  by pat_completeness auto
termination
proof (relation "measure (\<lambda>(day, y). nat (day - DayFromYear (y + 1) + 1))")
  show "wf (measure (\<lambda>(day, y). nat (day - DayFromYear (y + 1) + 1)))"
    by (rule wf_measure)
next
  fix day y :: int
  assume a: "DayFromYear (y + 1) \<le> day"
  have b: "DayFromYear (y + 1) < DayFromYear (y + 1 + 1)"
    by (rule DayFromYear_strict)
  have "nat (day - DayFromYear (y + 1 + 1) + 1) < nat (day - DayFromYear (y + 1) + 1)"
    using a b by linarith
  then show "((day, y + 1), (day, y)) \<in> measure (\<lambda>(day, y). nat (day - DayFromYear (y + 1) + 1))"
    unfolding measure_def inv_image_def by simp
qed

declare year_search.simps [simp del]

definition YearFromDay :: "int \<Rightarrow> int" where
  "YearFromDay day =
     year_search day (1970 + (if 0 \<le> day then day div 366 else day div 365))"

definition MonthFromDay :: "bool \<Rightarrow> int \<Rightarrow> int" where
  "MonthFromDay lp dwy =
     (if dwy < month_start lp 2 then 1 else if dwy < month_start lp 3 then 2
      else if dwy < month_start lp 4 then 3 else if dwy < month_start lp 5 then 4
      else if dwy < month_start lp 6 then 5 else if dwy < month_start lp 7 then 6
      else if dwy < month_start lp 8 then 7 else if dwy < month_start lp 9 then 8
      else if dwy < month_start lp 10 then 9 else if dwy < month_start lp 11 then 10
      else if dwy < month_start lp 12 then 11 else 12)"

definition digit :: "int \<Rightarrow> char" where
  "digit k = char_of (48 + nat (k mod 10))"

definition pad2 :: "int \<Rightarrow> string" where
  "pad2 n = [digit (n div 10), digit n]"

definition pad3 :: "int \<Rightarrow> string" where
  "pad3 n = [digit (n div 100), digit (n div 10), digit n]"

definition pad4 :: "int \<Rightarrow> string" where
  "pad4 n = [digit (n div 1000), digit (n div 100), digit (n div 10), digit n]"

definition pad6 :: "int \<Rightarrow> string" where
  "pad6 n = [digit (n div 100000), digit (n div 10000), digit (n div 1000),
             digit (n div 100), digit (n div 10), digit n]"

text \<open>The date part of the ISO form: four digits of year, or a sign and six.\<close>

definition iso_date :: "int \<times> int \<times> int \<Rightarrow> string" where
  "iso_date ymd =
     (case ymd of (y, m, d) \<Rightarrow>
        (if 0 \<le> y \<and> y \<le> 9999 then pad4 y
         else (if y < 0 then ''-'' else ''+'') @ pad6 \<bar>y\<bar>)
        @ ''-'' @ pad2 m @ ''-'' @ pad2 d)"

definition toISOString :: "int \<Rightarrow> string" where
  "toISOString t =
     (let day = t div 86400000; ms = t mod 86400000;
          y = YearFromDay day; dwy = day - DayFromYear y;
          m = MonthFromDay (leap y) dwy;
          d = dwy - month_start (leap y) m + 1
      in iso_date (y, m, d) @ ''T'' @ pad2 (ms div 3600000) @ '':''
           @ pad2 (ms div 60000 mod 60) @ '':'' @ pad2 (ms div 1000 mod 60) @ ''.''
           @ pad3 (ms mod 1000) @ ''Z'')"

definition plus_one_day :: "(string \<Rightarrow> int option) \<Rightarrow> string \<Rightarrow> js_error + string" where
  "plus_one_day legacy startDate =
     (case Option.bind (Option.bind (Date_parse legacy startDate) TimeClip)
             (\<lambda>t. TimeClip (t + 24 * 60 * 60 * 1000)) of
        None \<Rightarrow> Inl (RangeError ''Invalid time value'')
      | Some t \<Rightarrow> Inr (takeWhile (\<lambda>c. c \<noteq> CHR ''T'') (toISOString t)))"


section \<open>The vendor API facade (\<^verbatim>\<open>EightSleepClient\<close>)\<close>

text \<open>
  Every method's \<^verbatim>\<open>catch\<close>: an \<^verbatim>\<open>AxiosError\<close> is replaced by an
  \<^verbatim>\<open>Error\<close> whose message has the method's prefix; any other error is rethrown.
\<close>

definition rethrow :: "string \<Rightarrow> js_error \<Rightarrow> js_error" where
  "rethrow prefix e =
     (case e of
        AxiosError rsp m c \<Rightarrow> Error (prefix @ error_detail rsp m)
      | _ \<Rightarrow> e)"

definition getUsers ::
  "auth_config \<Rightarrow> vendor \<Rightarrow> client_state
     \<Rightarrow> ((js_error + string option \<times> body) \<times> client_state) option" where
  "getUsers cfg w s =
     (case (if \<not> truthy (this_userId s) then authenticate cfg w s else (Inr (), s)) of
        (Inl e, s1) \<Rightarrow> Some (Inl (rethrow ''Failed to get users: '' e), s1)
      | (Inr u, s1) \<Rightarrow>
          if \<not> truthy (this_userId s1) then
            Some (Inl (rethrow ''Failed to get users: '' (Error ''Not authenticated'')), s1)
          else
            (case client_get cfg w s1 ''/users/me'' [] of
               None \<Rightarrow> None
             | Some (Inl e, s2) \<Rightarrow> Some (Inl (rethrow ''Failed to get users: '' e), s2)
             | Some (Inr rsp, s2) \<Rightarrow> Some (Inr (this_userId s2, rsp_data rsp), s2)))"

record temperature_data =
  current :: "int option"
  target :: "int option"
  heating :: bool
  cooling :: bool

text \<open>
  \<^verbatim>\<open>targetTemp > 0\<close> and \<^verbatim>\<open>targetTemp < 0\<close>: a comparison with
  \<^verbatim>\<open>undefined\<close> is false.
\<close>

definition js_gt :: "int option \<Rightarrow> int \<Rightarrow> bool" where
  "js_gt v n = (case v of None \<Rightarrow> False | Some x \<Rightarrow> x > n)"

definition js_lt :: "int option \<Rightarrow> int \<Rightarrow> bool" where
  "js_lt v n = (case v of None \<Rightarrow> False | Some x \<Rightarrow> x < n)"

text \<open>
  Reading \<^verbatim>\<open>.level\<close> of an absent \<^verbatim>\<open>currentState\<close> throws a
  \<^verbatim>\<open>TypeError\<close>, which names the property here.
\<close>

definition getCurrentTempData ::
  "auth_config \<Rightarrow> vendor \<Rightarrow> client_state \<Rightarrow> string
     \<Rightarrow> ((js_error + temperature_data) \<times> client_state) option" where
  "getCurrentTempData cfg w s userId =
     (case client_get cfg w s (''/users/'' @ userId @ ''/temperature'') [] of
        None \<Rightarrow> None
      | Some (Inl e, s1) \<Rightarrow> Some (Inl (rethrow ''Failed to get temperature data: '' e), s1)
      | Some (Inr userResponse, s1) \<Rightarrow>
          (case currentState (rsp_data userResponse) of
             None \<Rightarrow>
               Some (Inl (rethrow ''Failed to get temperature data: '' (TypeError ''level'')), s1)
           | Some cs \<Rightarrow>
               (let currentTemp = cs_level cs;
                    targetTemp = currentLevel (rsp_data userResponse)
                in Some (Inr \<lparr>current = currentTemp, target = targetTemp,
                                heating = js_gt targetTemp 0,
                                cooling = js_lt targetTemp 0\<rparr>, s1))))"

text \<open>\<^verbatim>\<open>duration: number = 0\<close>: an omitted argument is the default.\<close>

definition setTempLevel ::
  "auth_config \<Rightarrow> vendor \<Rightarrow> client_state \<Rightarrow> string \<Rightarrow> int \<Rightarrow> int option
     \<Rightarrow> ((js_error + string) \<times> client_state) option" where
  "setTempLevel cfg w s userId level duration =
     (let dur = (case duration of None \<Rightarrow> 0 | Some d \<Rightarrow> d) in
      case client_put cfg w s (''/users/'' @ userId @ ''/temperature'') (CurrentLevel level) of
        None \<Rightarrow> None
      | Some (Inl e, s1) \<Rightarrow> Some (Inl (rethrow ''Failed to set temperature: '' e), s1)
      | Some (Inr r1, s1) \<Rightarrow>
          if dur > 0 then
            (case client_put cfg w s1 (''/users/'' @ userId @ ''/temperature'')
                    (TimeBased level dur) of
               None \<Rightarrow> None
             | Some (Inl e, s2) \<Rightarrow> Some (Inl (rethrow ''Failed to set temperature: '' e), s2)
             | Some (Inr r2, s2) \<Rightarrow> Some (Inr ''Temperature updated successfully'', s2))
          else Some (Inr ''Temperature updated successfully'', s1))"

definition trends_params :: "string \<Rightarrow> string \<Rightarrow> (string \<times> string) list" where
  "trends_params startDate to =
     [(''tz'', ''America/Los_Angeles''), (''from'', startDate), (''to'', to),
      (''include-main'', ''false''), (''include-all-sessions'', ''true''),
      (''model-version'', ''v2'')]"

text \<open>
  \<^verbatim>\<open>endDate || ...\<close>: an omitted or empty end date is replaced by the day after
  the start date.
\<close>

definition getSleepData ::
  "auth_config \<Rightarrow> vendor \<Rightarrow> (string \<Rightarrow> int option) \<Rightarrow> client_state
     \<Rightarrow> string \<Rightarrow> string \<Rightarrow> string option
     \<Rightarrow> ((js_error + day_record list) \<times> client_state) option" where
  "getSleepData cfg w legacy s userId startDate endDate =
     (case (case endDate of
              None \<Rightarrow> plus_one_day legacy startDate
            | Some e \<Rightarrow> if e \<noteq> [] then Inr e else plus_one_day legacy startDate) of
        Inl e \<Rightarrow> Some (Inl (rethrow ''Failed to get sleep data: '' e), s)
      | Inr to \<Rightarrow>
          (case client_get cfg w s (''/users/'' @ userId @ ''/trends'')
                  (trends_params startDate to) of
             None \<Rightarrow> None
           | Some (Inl e, s1) \<Rightarrow> Some (Inl (rethrow ''Failed to get sleep data: '' e), s1)
           | Some (Inr rsp, s1) \<Rightarrow>
               Some (Inr (case days (rsp_data rsp) of None \<Rightarrow> [] | Some ds \<Rightarrow> ds), s1)))"

record sleep_score =
  total :: "int option"
  hrv :: "int option"
  breathing :: "int option"
  tossAndTurns :: "int option"

definition getSleepScore ::
  "auth_config \<Rightarrow> vendor \<Rightarrow> (string \<Rightarrow> int option) \<Rightarrow> client_state
     \<Rightarrow> string \<Rightarrow> string \<Rightarrow> ((js_error + sleep_score) \<times> client_state) option" where
  "getSleepScore cfg w legacy s userId date =
     (case getSleepData cfg w legacy s userId date None of
        None \<Rightarrow> None
      | Some (Inl e, s1) \<Rightarrow> Some (Inl (rethrow ''Failed to get sleep score: '' e), s1)
      | Some (Inr sleepData, s1) \<Rightarrow>
          (case sleepData of
             [] \<Rightarrow>
               Some (Inl (rethrow ''Failed to get sleep score: ''
                            (Error (''No sleep data found for date '' @ date))), s1)
           | dayData # rest \<Rightarrow>
               Some (Inr \<lparr>total = score dayData,
                           hrv = Option.bind (Option.bind (sleepQualityScore dayData) sqs_hrv)
                                   hrv_score,
                           breathing =
                             Option.bind (Option.bind (sleepQualityScore dayData)
                               sqs_respiratoryRate) rr_score,
                           tossAndTurns = tnt dayData\<rparr>, s1)))"

text \<open>
  \<^verbatim>\<open>String.prototype.toLowerCase\<close> is a function of the JavaScript runtime, which
  lower-cases every cased letter of Unicode; it is the parameter \<open>toLowerCase\<close> of
  \<^verbatim>\<open>getSleepStages\<close> below.
\<close>

text \<open>
  \<^verbatim>\<open>obj[key] = v\<close> on an object created by \<^verbatim>\<open>{}\<close>, for a number \<open>v\<close>. The
  object is the map of its own properties. The key \<^verbatim>\<open>__proto__\<close> is the accessor
  inherited from \<^verbatim>\<open>Object.prototype\<close>, whose setter ignores a value that is not an
  object: no property is created. Every other key becomes, or stays, an own property
  with the value \<open>v\<close>.
\<close>

definition assign :: "(string \<rightharpoonup> int) \<Rightarrow> string \<Rightarrow> int \<Rightarrow> (string \<rightharpoonup> int)" where
  "assign obj key v = (if key = ''__proto__'' then obj else obj(key \<mapsto> v))"

text \<open>
  The loop of \<^verbatim>\<open>getSleepStages\<close> over the segments, on the object
  \<^verbatim>\<open>stageMap\<close>.
\<close>

fun stage_loop ::
  "(string \<Rightarrow> string) \<Rightarrow> stage_segment list \<Rightarrow> (string \<rightharpoonup> int) \<Rightarrow> (string \<rightharpoonup> int)" where
  "stage_loop toLowerCase [] stageMap = stageMap"
| "stage_loop toLowerCase (seg # rest) stageMap =
     stage_loop toLowerCase rest
       (case (stage seg, seg_duration seg) of
          (Some name, Some d) \<Rightarrow>
            if name \<noteq> [] \<and> d \<noteq> 0 then assign stageMap (toLowerCase name) d else stageMap
        | _ \<Rightarrow> stageMap)"

text \<open>\<^verbatim>\<open>dayData.stages || []\<close>\<close>

definition stages_or_empty :: "day_record \<Rightarrow> stage_segment list" where
  "stages_or_empty dayData = (case stages dayData of None \<Rightarrow> [] | Some sg \<Rightarrow> sg)"

definition getSleepStages ::
  "auth_config \<Rightarrow> vendor \<Rightarrow> (string \<Rightarrow> int option) \<Rightarrow> (string \<Rightarrow> string) \<Rightarrow> client_state
     \<Rightarrow> string \<Rightarrow> string \<Rightarrow> ((js_error + (string \<rightharpoonup> int)) \<times> client_state) option" where
  "getSleepStages cfg w legacy toLowerCase s userId date =
     (case getSleepData cfg w legacy s userId date None of
        None \<Rightarrow> None
      | Some (Inl e, s1) \<Rightarrow> Some (Inl (rethrow ''Failed to get sleep stages: '' e), s1)
      | Some (Inr sleepData, s1) \<Rightarrow>
          (case sleepData of
             [] \<Rightarrow>
               Some (Inl (rethrow ''Failed to get sleep stages: ''
                            (Error (''No sleep data found for date '' @ date))), s1)
           | dayData # rest \<Rightarrow>
               Some (Inr (stage_loop toLowerCase (stages_or_empty dayData) Map.empty), s1)))"

definition getHrv ::
  "auth_config \<Rightarrow> vendor \<Rightarrow> (string \<Rightarrow> int option) \<Rightarrow> client_state
     \<Rightarrow> string \<Rightarrow> string \<Rightarrow> ((js_error + int option) \<times> client_state) option" where
  "getHrv cfg w legacy s userId date =
     (case getSleepData cfg w legacy s userId date None of
        None \<Rightarrow> None
      | Some (Inl e, s1) \<Rightarrow> Some (Inl (rethrow ''Failed to get HRV: '' e), s1)
      | Some (Inr sleepData, s1) \<Rightarrow>
          (case sleepData of
             [] \<Rightarrow>
               Some (Inl (rethrow ''Failed to get HRV: ''
                            (Error (''No sleep data found for date '' @ date))), s1)
           | dayData # rest \<Rightarrow>
               Some (Inr (Option.bind (Option.bind (sleepQualityScore dayData) sqs_hrv)
                            hrv_score), s1)))"

section \<open>The tool functions (\<^verbatim>\<open>EightSleepFunctions\<close>)\<close>

definition getTemperature ::
  "auth_config \<Rightarrow> vendor \<Rightarrow> client_state \<Rightarrow> string
     \<Rightarrow> ((js_error + temperature_data) \<times> client_state) option" where
  "getTemperature cfg w s userId = getCurrentTempData cfg w s userId"

definition setTemperature ::
  "auth_config \<Rightarrow> vendor \<Rightarrow> client_state \<Rightarrow> string \<Rightarrow> int \<Rightarrow> int option
     \<Rightarrow> ((js_error + string) \<times> client_state) option" where
  "setTemperature cfg w s userId level duration =
     (let dur = (case duration of None \<Rightarrow> 0 | Some d \<Rightarrow> d) in
      if level < - 100 \<or> level > 100 then
        Some (Inl (Error ''Temperature level must be between -100 and 100''), s)
      else setTempLevel cfg w s userId level (Some dur))"

record hrv_result =
  hr_date :: string
  hr_average :: "int option"
  hr_min :: "int option"
  hr_max :: "int option"

definition functions_getHrv ::
  "auth_config \<Rightarrow> vendor \<Rightarrow> (string \<Rightarrow> int option) \<Rightarrow> client_state
     \<Rightarrow> string \<Rightarrow> string \<Rightarrow> ((js_error + hrv_result) \<times> client_state) option" where
  "functions_getHrv cfg w legacy s userId date =
     (case getSleepData cfg w legacy s userId date None of
        None \<Rightarrow> None
      | Some (Inl e, s1) \<Rightarrow> Some (Inl e, s1)
      | Some (Inr sleepData, s1) \<Rightarrow>
          (case sleepData of
             [] \<Rightarrow> Some (Inl (Error (''No sleep data found for date '' @ date)), s1)
           | dayData # rest \<Rightarrow>
               (let h = Option.bind (sleepQualityScore dayData) sqs_hrv in
                Some (Inr \<lparr>hr_date = date, hr_average = Option.bind h average,
                            hr_min = Option.bind h minimum,
                            hr_max = Option.bind h maximum\<rparr>, s1))))"

section \<open>Names used in the statements\<close>

text \<open>
  What the loop of \<^verbatim>\<open>getSleepStages\<close> stores, in order: one entry for every
  segment with a non-empty name and a non-zero duration whose lower-cased name is a key
  that an assignment creates.
\<close>

fun stage_entries :: "(string \<Rightarrow> string) \<Rightarrow> stage_segment list \<Rightarrow> (string \<times> int) list" where
  "stage_entries toLowerCase [] = []"
| "stage_entries toLowerCase (seg # rest) =
     (case (stage seg, seg_duration seg) of
        (Some name, Some d) \<Rightarrow>
          if name \<noteq> [] \<and> d \<noteq> 0 \<and> toLowerCase name \<noteq> ''__proto__''
          then [(toLowerCase name, d)] else []
      | _ \<Rightarrow> [])
     @ stage_entries toLowerCase rest"

text \<open>The calls the facade issues, as they appear in the log.\<close>

definition trends_call :: "string \<Rightarrow> string \<Rightarrow> string \<Rightarrow> string \<Rightarrow> call" where
  "trends_call userId startDate to tok =
     ApiCall \<lparr>rq_verb = GET, url = ''/users/'' @ userId @ ''/trends'',
       params = trends_params startDate to, rq_data = NoData,
       authorization = Some (''Bearer '' @ tok)\<rparr>"

definition put_call :: "string \<Rightarrow> req_data \<Rightarrow> string \<Rightarrow> call" where
  "put_call userId d tok =
     ApiCall \<lparr>rq_verb = PUT, url = ''/users/'' @ userId @ ''/temperature'', params = [],
       rq_data = d, authorization = Some (''Bearer '' @ tok)\<rparr>"

text \<open>The requests of the facade, as the methods hand them to the client.\<close>

definition level_request :: "string \<Rightarrow> int \<Rightarrow> request_config" where
  "level_request userId level =
     \<lparr>rq_verb = PUT, url = ''/users/'' @ userId @ ''/temperature'', params = [],
      rq_data = CurrentLevel level, authorization = None\<rparr>"

definition duration_request :: "string \<Rightarrow> int \<Rightarrow> int \<Rightarrow> request_config" where
  "duration_request userId level dur =
     \<lparr>rq_verb = PUT, url = ''/users/'' @ userId @ ''/temperature'', params = [],
      rq_data = TimeBased level dur, authorization = None\<rparr>"


text \<open>
  A call is a login with the configured credentials, or an attempt of the request
  \<open>rc\<close>: the same verb, URL, parameters and data, under any authorization header.
\<close>

fun login_or_attempt :: "auth_config \<Rightarrow> request_config \<Rightarrow> call \<Rightarrow> bool" where
  "login_or_attempt cfg rc (AuthCall p) = (p = login_payload cfg)"
| "login_or_attempt cfg rc (ApiCall r) =
     (rq_verb r = rq_verb rc \<and> url r = url rc \<and> params r = params rc \<and> rq_data r = rq_data rc)"

text \<open>The body of \<open>request\<close>, with the recursive call as a parameter.\<close>

abbreviation request_body ::
  "(auth_config \<Rightarrow> vendor \<Rightarrow> client_state \<Rightarrow> request_config
      \<Rightarrow> ((js_error + response) \<times> client_state) option)
     \<Rightarrow> auth_config \<Rightarrow> vendor \<Rightarrow> client_state \<Rightarrow> request_config
     \<Rightarrow> ((js_error + response) \<times> client_state) option" where
  "request_body req cfg w s rc \<equiv>
     (case (case request_interceptor cfg w s rc of
              (Inl e, s1) \<Rightarrow> (Inl e, s1)
            | (Inr rc1, s1) \<Rightarrow>
                (case send w s1 (ApiCall rc1) of (r, s2) \<Rightarrow> (settle (Some rc1) r, s2))) of
        (Inr rsp, s2) \<Rightarrow> Some (Inr rsp, s2)
      | (Inl (AxiosError (Some rsp) m c), s2) \<Rightarrow>
          (if status rsp = 401 then
             (case authenticate cfg w (s2\<lparr>token := None\<rparr>) of
                (Inl e, s3) \<Rightarrow> Some (Inl e, s3)
              | (Inr u, s3) \<Rightarrow>
                  (case c of
                     Some rc2 \<Rightarrow>
                       if truthy (token s3) then req cfg w s3 (bearer rc2 (token s3))
                       else Some (Inl (AxiosError (Some rsp) m c), s3)
                   | None \<Rightarrow> Some (Inl (AxiosError (Some rsp) m c), s3)))
           else Some (Inl (AxiosError (Some rsp) m c), s2))
      | (Inl e, s2) \<Rightarrow> Some (Inl e, s2))"

section \<open>Example configurations, states and vendors\<close>

definition cfg_ok :: auth_config where
  "cfg_ok = \<lparr>email = ''a@b.c'', password = ''pw'', clientId = ''id'',
     clientSecret = ''secret'', cfg_userId = ''u1''\<rparr>"

definition cfg_no_user :: auth_config where
  "cfg_no_user = \<lparr>email = ''a@b.c'', password = ''pw'', clientId = ''id'',
     clientSecret = ''secret'', cfg_userId = []\<rparr>"

definition s_fresh :: client_state where
  "s_fresh = \<lparr>token = None, this_userId = None, calls = []\<rparr>"

definition s_held :: client_state where
  "s_held = \<lparr>token = Some ''old'', this_userId = Some ''u1'', calls = []\<rparr>"

definition temperature_request :: request_config where
  "temperature_request =
     \<lparr>rq_verb = GET, url = ''/users/u1/temperature'', params = [], rq_data = NoData,
      authorization = None\<rparr>"

text \<open>A vendor that answers every call with status 200 and the same body.\<close>

definition always :: "body \<Rightarrow> vendor" where
  "always d = (\<lambda>cs. Reply 200 d)"

text \<open>A vendor that rejects every call with status 401 and a message.\<close>

definition rejecting :: "string \<Rightarrow> vendor" where
  "rejecting m = (\<lambda>cs. Reply 401 (empty_body\<lparr>message := Some m\<rparr>))"

fun is_api :: "call \<Rightarrow> bool" where
  "is_api (ApiCall rc) = True"
| "is_api (AuthCall p) = False"

text \<open>
  A vendor that grants every login the token \<open>fresh\<close>, answers the first \<open>n\<close> resource
  calls with status 401 and every later one with status 200.
\<close>

definition expired :: "nat \<Rightarrow> vendor" where
  "expired n cs =
     (case rev cs of
        [] \<Rightarrow> NoReply ''no call''
      | AuthCall p # before \<Rightarrow> Reply 200 (empty_body\<lparr>access_token := Some ''fresh''\<rparr>)
      | ApiCall rc # before \<Rightarrow>
          if length (filter is_api cs) \<le> n then Reply 401 empty_body else Reply 200 empty_body)"

definition temp_body :: "int \<Rightarrow> int \<Rightarrow> body" where
  "temp_body c t = empty_body\<lparr>currentState := Some \<lparr>cs_level = Some c\<rparr>, currentLevel := Some t\<rparr>"

definition days_body :: "day_record list option \<Rightarrow> body" where
  "days_body ds = empty_body\<lparr>days := ds\<rparr>"

definition example_day :: "stage_segment list \<Rightarrow> day_record" where
  "example_day segs = \<lparr>score = Some 80, sleepQualityScore = None, tnt = Some 3, stages = Some segs\<rparr>"

text \<open>A vendor that grants every login the token \<open>tok\<close> and answers every call with status 200.\<close>

definition granting :: "body \<Rightarrow> vendor" where
  "granting d = always (d\<lparr>access_token := Some ''tok''\<rparr>)"

text \<open>A vendor that answers every call with status 500.\<close>

definition failing :: vendor where
  "failing = (\<lambda>cs. Reply 500 empty_body)"


text \<open>A configuration with no password.\<close>

definition cfg_no_password :: auth_config where
  "cfg_no_password = \<lparr>email = ''a@b.c'', password = [], clientId = ''id'',
     clientSecret = ''secret'', cfg_userId = ''u1''\<rparr>"

text \<open>
  The runtime's \<^verbatim>\<open>toLowerCase\<close> on strings of ASCII characters: the letters A to Z
  are lower-cased, every other character is kept.
\<close>

definition ascii_lower :: "string \<Rightarrow> string" where
  "ascii_lower str =
     map (\<lambda>c. if 65 \<le> (of_char c :: nat) \<and> (of_char c :: nat) \<le> 90
                then char_of ((of_char c :: nat) + 32) else c) str"

section \<open>Basic facts about the client\<close>

lemma send_eq: "send w s c = (w (calls s @ [c]), s\<lparr>calls := calls s @ [c]\<rparr>)"
  by (simp add: send_def Let_def)

lemma authenticate_missing:
  assumes "email cfg = [] \<or> password cfg = []"
  shows "authenticate cfg w s =
    (Inl (Error ''Missing required credentials. Please check your .env file for EIGHT_SLEEP_EMAIL and EIGHT_SLEEP_PASSWORD''), s)"
  using assms by (simp add: authenticate_def)

lemma authenticate_ok:
  assumes "email cfg \<noteq> []" "password cfg \<noteq> []"
    and "w (calls s @ [AuthCall (login_payload cfg)]) = Reply st d" "200 \<le> st" "st < 300"
    and "access_token d = Some t" "t \<noteq> []"
  shows "authenticate cfg w s =
    (Inr (), s\<lparr>calls := calls s @ [AuthCall (login_payload cfg)], token := Some t,
               this_userId := Some (cfg_userId cfg)\<rparr>)"
  using assms by (simp add: authenticate_def send_eq settle_def truthy_def)

lemma request_interceptor_held:
  assumes "token s = Some t" "t \<noteq> []"
  shows "request_interceptor cfg w s rc = (Inr (rc\<lparr>authorization := Some (''Bearer '' @ t)\<rparr>), s)"
  using assms by (simp add: request_interceptor_def truthy_def bearer_def)

lemma request_ok:
  assumes "token s = Some t" "t \<noteq> []"
    and "w (calls s @ [ApiCall (rc\<lparr>authorization := Some (''Bearer '' @ t)\<rparr>)]) = Reply st d"
    and "200 \<le> st" "st < 300"
  shows "request cfg w s rc =
    Some (Inr \<lparr>status = st, rsp_data = d\<rparr>,
          s\<lparr>calls := calls s @ [ApiCall (rc\<lparr>authorization := Some (''Bearer '' @ t)\<rparr>)]\<rparr>)"
  using assms(3-)
  by (subst request.simps) (simp add: request_interceptor_held [OF assms(1,2)] send_eq settle_def)

lemma request_missing:
  assumes "email cfg = [] \<or> password cfg = []" "\<not> truthy (token s)"
  shows "request cfg w s rc =
    Some (Inl (Error ''Missing required credentials. Please check your .env file for EIGHT_SLEEP_EMAIL and EIGHT_SLEEP_PASSWORD''), s)"
  by (subst request.simps) (simp add: request_interceptor_def assms authenticate_missing)

section \<open>Missing credentials\<close>

text \<open>
  Claim C7. When the configured email or password is empty, \<open>authenticate\<close> fails with
  the missing-credentials error and leaves the state, and so the log of network calls,
  unchanged; a resource request made while no token is held (the first one) fails the same
  way, with no network call and no retry.
\<close>

theorem missing_credentials_no_network:
  assumes "email cfg = [] \<or> password cfg = []"
  shows "authenticate cfg w s =
      (Inl (Error ''Missing required credentials. Please check your .env file for EIGHT_SLEEP_EMAIL and EIGHT_SLEEP_PASSWORD''), s)
    \<and> (\<not> truthy (token s) \<longrightarrow>
        request cfg w s rc =
          Some (Inl (Error ''Missing required credentials. Please check your .env file for EIGHT_SLEEP_EMAIL and EIGHT_SLEEP_PASSWORD''), s))"
  using authenticate_missing [OF assms] request_missing [OF assms] by blast

theorem missing_credentials_no_network_witness:
  "authenticate (cfg_ok\<lparr>password := ''''\<rparr>) (always empty_body) s_fresh =
      (Inl (Error ''Missing required credentials. Please check your .env file for EIGHT_SLEEP_EMAIL and EIGHT_SLEEP_PASSWORD''), s_fresh)
    \<and> request (cfg_ok\<lparr>password := ''''\<rparr>) (always empty_body) s_fresh
        \<lparr>rq_verb = GET, url = ''/users/me'', params = [], rq_data = NoData, authorization = None\<rparr> =
          Some (Inl (Error ''Missing required credentials. Please check your .env file for EIGHT_SLEEP_EMAIL and EIGHT_SLEEP_PASSWORD''), s_fresh)"
  using missing_credentials_no_network [of "cfg_ok\<lparr>password := ''''\<rparr>" "always empty_body" s_fresh
      "\<lparr>rq_verb = GET, url = ''/users/me'', params = [], rq_data = NoData, authorization = None\<rparr>"]
  by (simp add: cfg_ok_def s_fresh_def truthy_def)

section \<open>Temperature state\<close>

text \<open>
  Claim C6. Whenever the temperature query succeeds with a body that has a
  \<open>currentState\<close> and a target level \<open>t\<close> in \<open>currentLevel\<close>, \<open>getTemperature\<close>
  returns \<open>current\<close> from \<open>currentState.level\<close>, \<open>target = t\<close>,
  \<open>heating\<close> exactly when \<open>t > 0\<close> and \<open>cooling\<close> exactly when \<open>t < 0\<close>: heating
  only above 0, cooling only below 0, neither at 0.
\<close>

theorem getTemperature_flags:
  assumes "client_get cfg w s (''/users/'' @ userId @ ''/temperature'') [] = Some (Inr rsp, s1)"
    and "currentState (rsp_data rsp) = Some cs"
    and "currentLevel (rsp_data rsp) = Some t"
  shows "getTemperature cfg w s userId =
      Some (Inr \<lparr>current = cs_level cs, target = Some t, heating = (0 < t), cooling = (t < 0)\<rparr>, s1)
    \<and> (\<forall>td s2. getTemperature cfg w s userId = Some (Inr td, s2) \<longrightarrow>
          (0 < t \<longrightarrow> heating td \<and> \<not> cooling td)
        \<and> (t < 0 \<longrightarrow> \<not> heating td \<and> cooling td)
        \<and> (t = 0 \<longrightarrow> \<not> heating td \<and> \<not> cooling td))"
proof -
  have eq: "getTemperature cfg w s userId =
      Some (Inr \<lparr>current = cs_level cs, target = Some t, heating = (0 < t), cooling = (t < 0)\<rparr>, s1)"
    using assms by (simp add: getTemperature_def getCurrentTempData_def Let_def js_gt_def js_lt_def)
  show ?thesis
    unfolding eq by auto
qed

theorem getTemperature_flags_witness:
  "getTemperature cfg_ok (always (temp_body 3 (- 20))) s_held ''u1'' =
      Some (Inr \<lparr>current = Some 3, target = Some (- 20), heating = False, cooling = True\<rparr>,
            s_held\<lparr>calls := [ApiCall \<lparr>rq_verb = GET, url = ''/users/u1/temperature'', params = [],
               rq_data = NoData, authorization = Some ''Bearer old''\<rparr>]\<rparr>)"
proof -
  have g: "client_get cfg_ok (always (temp_body 3 (- 20))) s_held (''/users/'' @ ''u1'' @ ''/temperature'') [] =
      Some (Inr \<lparr>status = 200, rsp_data = temp_body 3 (- 20)\<rparr>,
            s_held\<lparr>calls := [ApiCall \<lparr>rq_verb = GET, url = ''/users/u1/temperature'', params = [],
               rq_data = NoData, authorization = Some ''Bearer old''\<rparr>]\<rparr>)"
    unfolding client_get_def
    by (subst request_ok [where t = "''old''" and st = 200 and d = "temp_body 3 (- 20)"])
       (simp_all add: s_held_def always_def)
  show ?thesis
    using getTemperature_flags [OF g, of "\<lparr>cs_level = Some 3\<rparr>" "- 20"]
    by (simp add: temp_body_def empty_body_def)
qed

section \<open>Sleep data\<close>

lemma plus_one_day_example: "plus_one_day (\<lambda>x. None) ''2024-03-08'' = Inr ''2024-03-09''"
  by code_simp

lemma client_get_ok:
  assumes "token s = Some t" "t \<noteq> []"
    and "w (calls s @ [ApiCall \<lparr>rq_verb = GET, url = u, params = ps, rq_data = NoData,
            authorization = Some (''Bearer '' @ t)\<rparr>]) = Reply st d"
    and "200 \<le> st" "st < 300"
  shows "client_get cfg w s u ps =
    Some (Inr \<lparr>status = st, rsp_data = d\<rparr>,
          s\<lparr>calls := calls s @ [ApiCall \<lparr>rq_verb = GET, url = u, params = ps, rq_data = NoData,
            authorization = Some (''Bearer '' @ t)\<rparr>]\<rparr>)"
  unfolding client_get_def
  using request_ok [where rc = "\<lparr>rq_verb = GET, url = u, params = ps, rq_data = NoData,
      authorization = None\<rparr>", OF assms(1,2) _ assms(4,5), of w d cfg] assms(3)
  by simp

lemma rethrow_Error [simp]: "rethrow p (Error m) = Error m"
  by (simp add: rethrow_def)

lemma trends_example:
  "client_get cfg_ok (always (days_body ds)) s_held (''/users/'' @ ''u1'' @ ''/trends'')
       (trends_params ''2024-03-08'' ''2024-03-09'') =
     Some (Inr \<lparr>status = 200, rsp_data = days_body ds\<rparr>,
           s_held\<lparr>calls := [trends_call ''u1'' ''2024-03-08'' ''2024-03-09'' ''old'']\<rparr>)"
  by (subst client_get_ok [where t = "''old''" and st = 200 and d = "days_body ds"])
     (simp_all add: s_held_def always_def trends_call_def)

text \<open>
  Claim C4. When the trends query for a date succeeds and the vendor's body has no
  \<open>days\<close> or an empty list, \<open>getSleepData\<close> returns the empty list, while
  \<open>getSleepScore\<close>, \<open>getHrv\<close> (of the client and of the tool functions) and
  \<open>getSleepStages\<close> each fail with the error \<open>No sleep data found for date D\<close>.
\<close>

theorem no_day_records:
  assumes "plus_one_day legacy D = Inr to"
    and "client_get cfg w s (''/users/'' @ userId @ ''/trends'') (trends_params D to) =
           Some (Inr rsp, s1)"
    and "days (rsp_data rsp) = None \<or> days (rsp_data rsp) = Some []"
  shows "getSleepData cfg w legacy s userId D None = Some (Inr [], s1)
    \<and> getSleepScore cfg w legacy s userId D =
          Some (Inl (Error (''No sleep data found for date '' @ D)), s1)
    \<and> getHrv cfg w legacy s userId D =
          Some (Inl (Error (''No sleep data found for date '' @ D)), s1)
    \<and> functions_getHrv cfg w legacy s userId D =
          Some (Inl (Error (''No sleep data found for date '' @ D)), s1)
    \<and> getSleepStages cfg w legacy toLowerCase s userId D =
          Some (Inl (Error (''No sleep data found for date '' @ D)), s1)"
proof -
  have d: "getSleepData cfg w legacy s userId D None = Some (Inr [], s1)"
    using assms by (auto simp add: getSleepData_def)
  show ?thesis
    by (simp add: d getSleepScore_def getHrv_def functions_getHrv_def getSleepStages_def)
qed

theorem no_day_records_witness:
  "getSleepData cfg_ok (always (days_body (Some []))) (\<lambda>x. None) s_held ''u1'' ''2024-03-08'' None =
      Some (Inr [], s_held\<lparr>calls := [trends_call ''u1'' ''2024-03-08'' ''2024-03-09'' ''old'']\<rparr>)
    \<and> getSleepScore cfg_ok (always (days_body (Some []))) (\<lambda>x. None) s_held ''u1'' ''2024-03-08'' =
      Some (Inl (Error ''No sleep data found for date 2024-03-08''),
            s_held\<lparr>calls := [trends_call ''u1'' ''2024-03-08'' ''2024-03-09'' ''old'']\<rparr>)
    \<and> getHrv cfg_ok (always (days_body (Some []))) (\<lambda>x. None) s_held ''u1'' ''2024-03-08'' =
      Some (Inl (Error ''No sleep data found for date 2024-03-08''),
            s_held\<lparr>calls := [trends_call ''u1'' ''2024-03-08'' ''2024-03-09'' ''old'']\<rparr>)
    \<and> functions_getHrv cfg_ok (always (days_body (Some []))) (\<lambda>x. None) s_held ''u1'' ''2024-03-08'' =
      Some (Inl (Error ''No sleep data found for date 2024-03-08''),
            s_held\<lparr>calls := [trends_call ''u1'' ''2024-03-08'' ''2024-03-09'' ''old'']\<rparr>)
    \<and> getSleepStages cfg_ok (always (days_body (Some []))) (\<lambda>x. None) ascii_lower s_held ''u1''
        ''2024-03-08'' =
      Some (Inl (Error ''No sleep data found for date 2024-03-08''),
            s_held\<lparr>calls := [trends_call ''u1'' ''2024-03-08'' ''2024-03-09'' ''old'']\<rparr>)"
proof -
  have h: "days (rsp_data \<lparr>status = 200, rsp_data = days_body (Some [])\<rparr>) = None
      \<or> days (rsp_data \<lparr>status = 200, rsp_data = days_body (Some [])\<rparr>) = Some []"
    by (simp add: days_body_def)
  show ?thesis
    using no_day_records [OF plus_one_day_example trends_example h] by simp
qed

section \<open>Sleep stages\<close>

lemma stage_loop_entries:
  "stage_loop toLowerCase segs m = m ++ map_of (rev (stage_entries toLowerCase segs))"
proof (induction segs arbitrary: m)
  case Nil
  show ?case by simp
next
  case (Cons seg rest)
  show ?case
    by (simp add: Cons.IH assign_def map_add_upd_left split: option.splits)
qed

lemma stage_entries_append:
  "stage_entries toLowerCase (xs @ ys) = stage_entries toLowerCase xs @ stage_entries toLowerCase ys"
  by (induction xs) simp_all

lemma stage_entries_observed:
  "(k, v) \<in> set (stage_entries toLowerCase segs) \<Longrightarrow>
     \<exists>seg \<in> set segs. \<exists>name. stage seg = Some name \<and> name \<noteq> [] \<and> toLowerCase name = k
        \<and> seg_duration seg = Some v \<and> v \<noteq> 0 \<and> k \<noteq> ''__proto__''"
proof (induction segs)
  case Nil
  then show ?case by simp
next
  case (Cons a segs)
  then show ?case
    by (cases "stage a"; cases "seg_duration a") (auto split: if_splits)
qed


lemma stage_loop_observed:
  assumes "stage_loop toLowerCase segs Map.empty k = Some v"
  shows "\<exists>seg \<in> set segs. \<exists>name. stage seg = Some name \<and> name \<noteq> [] \<and> toLowerCase name = k
        \<and> seg_duration seg = Some v \<and> v \<noteq> 0 \<and> k \<noteq> ''__proto__''"
proof -
  have "map_of (rev (stage_entries toLowerCase segs)) k = Some v"
    using assms by (simp add: stage_loop_entries)
  then have "(k, v) \<in> set (stage_entries toLowerCase segs)"
    using map_of_SomeD by fastforce
  then show ?thesis by (rule stage_entries_observed)
qed


lemma stage_loop_skip:
  assumes "\<not> (truthy (stage seg) \<and> truthy_num (seg_duration seg))"
  shows "stage_loop toLowerCase (before @ seg # after) m = stage_loop toLowerCase (before @ after) m"
proof -
  have "stage_entries toLowerCase [seg] = []"
    using assms by (auto simp add: truthy_def truthy_num_def split: option.splits)
  then have "stage_entries toLowerCase (before @ [seg] @ after) =
      stage_entries toLowerCase (before @ after)"
    by (simp only: stage_entries_append append_Nil)
  then show ?thesis by (simp add: stage_loop_entries)
qed

lemma getSleepStages_first_day:
  assumes "getSleepData cfg w legacy s userId date None = Some (Inr (dayData # rest), s1)"
  shows "getSleepStages cfg w legacy toLowerCase s userId date =
           Some (Inr (stage_loop toLowerCase (stages_or_empty dayData) Map.empty), s1)"
  using assms by (simp add: getSleepStages_def)

lemma ascii_lower_DEEP: "ascii_lower ''DEEP'' = ''deep''"
  by code_simp

lemma ascii_lower_LIGHT: "ascii_lower ''LIGHT'' = ''light''"
  by code_simp

lemma ascii_lower_PROTO: "ascii_lower ''__PROTO__'' = ''__proto__''"
  by code_simp

text \<open>
  The key \<^verbatim>\<open>__proto__\<close>: a segment named \<^verbatim>\<open>__PROTO__\<close> leaves no property, the
  segments after it are stored as usual.
\<close>

lemma stage_loop_proto_example:
  "stage_loop ascii_lower [\<lparr>stage = Some ''__PROTO__'', seg_duration = Some 120\<rparr>,
                           \<lparr>stage = Some ''LIGHT'', seg_duration = Some 240\<rparr>] Map.empty =
     [''light'' \<mapsto> 240]"
  by (simp add: assign_def ascii_lower_PROTO ascii_lower_LIGHT)


lemma getSleepData_example:
  "getSleepData cfg_ok (always (days_body (Some ds))) (\<lambda>x. None) s_held ''u1'' ''2024-03-08'' None =
     Some (Inr ds, s_held\<lparr>calls := [trends_call ''u1'' ''2024-03-08'' ''2024-03-09'' ''old'']\<rparr>)"
  using trends_example [of "Some ds"]
  by (simp add: getSleepData_def plus_one_day_example days_body_def)


text \<open>
  Claim C9. A segment whose name or duration is falsy (duration 0, empty name, or an
  absent field) leaves no trace: \<open>getSleepStages\<close> returns the map it would build from
  the other segments alone. The returned map never holds a zero, and when no other
  segment reports the same lower-cased name, that name is an absent key.
\<close>

theorem getSleepStages_skips_falsy:
  assumes "getSleepData cfg w legacy s userId date None = Some (Inr (dayData # rest), s1)"
    and "stages dayData = Some (before @ seg # after)"
    and "\<not> (truthy (stage seg) \<and> truthy_num (seg_duration seg))"
  shows "\<exists>stageMap. getSleepStages cfg w legacy toLowerCase s userId date = Some (Inr stageMap, s1)
    \<and> stageMap = stage_loop toLowerCase (before @ after) Map.empty
    \<and> (\<forall>k. stageMap k \<noteq> Some 0)
    \<and> (\<forall>name. stage seg = Some name
          \<and> (\<forall>x \<in> set (before @ after). \<forall>n. stage x = Some n \<longrightarrow> toLowerCase n \<noteq> toLowerCase name)
          \<longrightarrow> stageMap (toLowerCase name) = None)"
proof -
  let ?m = "stage_loop toLowerCase (before @ after) Map.empty"
  have r: "getSleepStages cfg w legacy toLowerCase s userId date = Some (Inr ?m, s1)"
    using getSleepStages_first_day [OF assms(1), where toLowerCase = toLowerCase] assms(2)
      stage_loop_skip [OF assms(3), where toLowerCase = toLowerCase]
    by (simp add: stages_or_empty_def)
  have z: "\<forall>k. ?m k \<noteq> Some 0"
    using stage_loop_observed [where toLowerCase = toLowerCase and segs = "before @ after" and v = 0]
    by blast
  have n: "\<forall>name. stage seg = Some name
          \<and> (\<forall>x \<in> set (before @ after). \<forall>n. stage x = Some n \<longrightarrow> toLowerCase n \<noteq> toLowerCase name)
          \<longrightarrow> ?m (toLowerCase name) = None"
  proof (intro allI impI)
    fix name
    assume h: "stage seg = Some name
          \<and> (\<forall>x \<in> set (before @ after). \<forall>n. stage x = Some n \<longrightarrow> toLowerCase n \<noteq> toLowerCase name)"
    show "?m (toLowerCase name) = None"
    proof (cases "?m (toLowerCase name)")
      case None
      then show ?thesis .
    next
      case (Some v)
      from stage_loop_observed [OF Some] h show ?thesis by blast
    qed
  qed
  show ?thesis using r z n by blast
qed

theorem getSleepStages_skips_falsy_witness:
  "getSleepStages cfg_ok
      (always (days_body (Some [example_day [\<lparr>stage = Some ''DEEP'', seg_duration = Some 120\<rparr>,
                                              \<lparr>stage = Some ''REM'', seg_duration = Some 0\<rparr>]])))
      (\<lambda>x. None) ascii_lower s_held ''u1'' ''2024-03-08'' =
     Some (Inr [''deep'' \<mapsto> 120],
           s_held\<lparr>calls := [trends_call ''u1'' ''2024-03-08'' ''2024-03-09'' ''old'']\<rparr>)
   \<and> [''deep'' \<mapsto> (120::int)] ''rem'' = None"
proof -
  have e: "stages (example_day [\<lparr>stage = Some ''DEEP'', seg_duration = Some 120\<rparr>,
                                \<lparr>stage = Some ''REM'', seg_duration = Some 0\<rparr>]) =
      Some ([\<lparr>stage = Some ''DEEP'', seg_duration = Some 120\<rparr>]
            @ \<lparr>stage = Some ''REM'', seg_duration = Some 0\<rparr> # [])"
    by (simp add: example_day_def)
  have f: "\<not> (truthy (stage \<lparr>stage = Some ''REM'', seg_duration = Some 0\<rparr>)
      \<and> truthy_num (seg_duration \<lparr>stage = Some ''REM'', seg_duration = Some 0\<rparr>))"
    by (simp add: truthy_num_def)
  show ?thesis
    using getSleepStages_skips_falsy [OF getSleepData_example e f, where toLowerCase = ascii_lower]
    by (auto simp add: ascii_lower_DEEP assign_def)
qed

section \<open>The active user id\<close>

lemma authenticate_results:
  "authenticate cfg w s = (r, s1) \<Longrightarrow>
     (\<exists>m. r = Inl (Error m) \<and> (s1 = s \<or> s1 = s\<lparr>calls := calls s @ [AuthCall (login_payload cfg)]\<rparr>))
     \<or> (r = Inr () \<and> this_userId s1 = Some (cfg_userId cfg) \<and> truthy (token s1)
         \<and> calls s1 = calls s @ [AuthCall (login_payload cfg)])"
  by (auto simp add: authenticate_def send_eq settle_def split: if_splits reply.splits)

text \<open>
  The client's user id is absent or the configured one, in every state the client
  reaches: \<open>authenticate\<close> is its only assignment.
\<close>

lemma authenticate_userId:
  assumes "authenticate cfg w s = (r, s1)"
    and "this_userId s = None \<or> this_userId s = Some (cfg_userId cfg)"
  shows "this_userId s1 = None \<or> this_userId s1 = Some (cfg_userId cfg)"
  using authenticate_results [OF assms(1)] assms(2) by auto

lemma request_interceptor_userId:
  assumes "request_interceptor cfg w s rc = (r, s1)"
    and "this_userId s = None \<or> this_userId s = Some (cfg_userId cfg)"
  shows "this_userId s1 = None \<or> this_userId s1 = Some (cfg_userId cfg)"
proof (cases "truthy (token s)")
  case True
  then show ?thesis using assms by (auto simp add: request_interceptor_def)
next
  case False
  obtain r' s' where a: "authenticate cfg w s = (r', s')"
    by (cases "authenticate cfg w s") auto
  from authenticate_userId [OF a assms(2)] assms(1) a False show ?thesis
    by (auto simp add: request_interceptor_def split: sum.splits)
qed

lemma request_userId:
  assumes "request cfg w s rc = Some (r, s')"
    and "this_userId s = None \<or> this_userId s = Some (cfg_userId cfg)"
  shows "this_userId s' = None \<or> this_userId s' = Some (cfg_userId cfg)"
proof -
  have "(this_userId s = None \<or> this_userId s = Some (cfg_userId cfg))
      \<longrightarrow> (this_userId (snd (r, s')) = None \<or> this_userId (snd (r, s')) = Some (cfg_userId cfg))"
  proof (rule request.raw_induct
      [where P = "\<lambda>cfg w s rc y. (this_userId s = None \<or> this_userId s = Some (cfg_userId cfg))
         \<longrightarrow> (this_userId (snd y) = None \<or> this_userId (snd y) = Some (cfg_userId cfg))",
       OF _ assms(1)], intro impI)
    fix req cfg w s rc y
    assume IH: "\<And>cfg w s rc y. req cfg w s rc = Some y \<Longrightarrow>
        (this_userId s = None \<or> this_userId s = Some (cfg_userId cfg))
         \<longrightarrow> (this_userId (snd y) = None \<or> this_userId (snd y) = Some (cfg_userId cfg))"
      and inv: "this_userId s = None \<or> this_userId s = Some (cfg_userId cfg)"
      and unfolded: "(case (case request_interceptor cfg w s rc of
              (Inl e, s1) \<Rightarrow> (Inl e, s1)
            | (Inr rc1, s1) \<Rightarrow>
                (case send w s1 (ApiCall rc1) of (r, s2) \<Rightarrow> (settle (Some rc1) r, s2))) of
        (Inr rsp, s2) \<Rightarrow> Some (Inr rsp, s2)
      | (Inl (AxiosError (Some rsp) m c), s2) \<Rightarrow>
          (if status rsp = 401 then
             (case authenticate cfg w (s2\<lparr>token := None\<rparr>) of
                (Inl e, s3) \<Rightarrow> Some (Inl e, s3)
              | (Inr u, s3) \<Rightarrow>
                  (case c of
                     Some rc2 \<Rightarrow>
                       if truthy (token s3) then req cfg w s3 (bearer rc2 (token s3))
                       else Some (Inl (AxiosError (Some rsp) m c), s3)
                   | None \<Rightarrow> Some (Inl (AxiosError (Some rsp) m c), s3)))
           else Some (Inl (AxiosError (Some rsp) m c), s2))
      | (Inl e, s2) \<Rightarrow> Some (Inl e, s2)) = Some y"
    obtain x s1 where i: "request_interceptor cfg w s rc = (x, s1)"
      by (cases "request_interceptor cfg w s rc") auto
    note inv1 = request_interceptor_userId [OF i inv]
    obtain z s2 where f: "(case request_interceptor cfg w s rc of
              (Inl e, s1) \<Rightarrow> (Inl e, s1)
            | (Inr rc1, s1) \<Rightarrow>
                (case send w s1 (ApiCall rc1) of (r, s2) \<Rightarrow> (settle (Some rc1) r, s2))) = (z, s2)"
      by (cases "(case request_interceptor cfg w s rc of
              (Inl e, s1) \<Rightarrow> (Inl e, s1)
            | (Inr rc1, s1) \<Rightarrow>
                (case send w s1 (ApiCall rc1) of (r, s2) \<Rightarrow> (settle (Some rc1) r, s2)))") auto
    have inv2: "this_userId s2 = None \<or> this_userId s2 = Some (cfg_userId cfg)"
      using f i inv1 by (auto simp add: send_eq split: sum.splits)
    obtain r3 s3 where a: "authenticate cfg w (s2\<lparr>token := None\<rparr>) = (r3, s3)"
      by (cases "authenticate cfg w (s2\<lparr>token := None\<rparr>)") auto
    have inv3: "this_userId s3 = None \<or> this_userId s3 = Some (cfg_userId cfg)"
      using authenticate_userId [OF a] inv2 by simp
    have "snd y = s2 \<or> snd y = s3 \<or> (\<exists>rc2. req cfg w s3 rc2 = Some y)"
      using unfolded unfolding f
      by (auto simp add: a split: sum.splits js_error.splits option.splits if_splits)
    then show "this_userId (snd y) = None \<or> this_userId (snd y) = Some (cfg_userId cfg)"
      using inv2 inv3 IH by blast
  qed
  then show ?thesis using assms(2) by simp
qed

text \<open>
  Claim C10, as amended. The client's user id is only ever assigned from the
  configuration, so with an empty configured user id \<open>getUsers\<close> runs \<open>authenticate\<close>
  and then fails without issuing its resource call: with \<open>Not authenticated\<close> when the
  login succeeds, and with the login's own error when it does not.
\<close>

theorem getUsers_empty_user_id:
  assumes "cfg_userId cfg = []"
    and "this_userId s = None \<or> this_userId s = Some (cfg_userId cfg)"
  shows "getUsers cfg w s =
      (case authenticate cfg w s of
         (Inl e, s1) \<Rightarrow> Some (Inl e, s1)
       | (Inr u, s1) \<Rightarrow> Some (Inl (Error ''Not authenticated''), s1))
    \<and> (\<exists>e s1. getUsers cfg w s = Some (Inl e, s1)
          \<and> (calls s1 = calls s \<or> calls s1 = calls s @ [AuthCall (login_payload cfg)]))"
proof -
  obtain r s1 where a: "authenticate cfg w s = (r, s1)"
    by (cases "authenticate cfg w s") auto
  have f: "\<not> truthy (this_userId s)"
    using assms by (auto simp add: truthy_def)
  from authenticate_results [OF a]
  show ?thesis
  proof
    assume "\<exists>m. r = Inl (Error m)
      \<and> (s1 = s \<or> s1 = s\<lparr>calls := calls s @ [AuthCall (login_payload cfg)]\<rparr>)"
    then show ?thesis
      using a f by (auto simp add: getUsers_def)
  next
    assume "r = Inr () \<and> this_userId s1 = Some (cfg_userId cfg) \<and> truthy (token s1)
         \<and> calls s1 = calls s @ [AuthCall (login_payload cfg)]"
    then show ?thesis
      using a f assms(1) by (auto simp add: getUsers_def truthy_def)
  qed
qed

theorem getUsers_empty_user_id_witness:
  "getUsers cfg_no_user (always (empty_body\<lparr>access_token := Some ''tok''\<rparr>)) s_fresh =
     Some (Inl (Error ''Not authenticated''),
           \<lparr>token = Some ''tok'', this_userId = Some [],
            calls = [AuthCall (login_payload cfg_no_user)]\<rparr>)"
  using getUsers_empty_user_id [of cfg_no_user s_fresh
      "always (empty_body\<lparr>access_token := Some ''tok''\<rparr>)"]
    authenticate_ok [of cfg_no_user
      "always (empty_body\<lparr>access_token := Some ''tok''\<rparr>)" s_fresh 200
      "empty_body\<lparr>access_token := Some ''tok''\<rparr>" "''tok''"]
  by (simp add: cfg_no_user_def s_fresh_def always_def empty_body_def)

text \<open>
  The claim as stated fails where the login itself fails: with an empty configured user
  id and a vendor that rejects the login, the error is the login's, not
  \<open>Not authenticated\<close>.
\<close>

theorem getUsers_empty_user_id_counterexample:
  "getUsers cfg_no_user (rejecting ''invalid_grant'') s_fresh =
     Some (Inl (Error ''Failed to authenticate with Eight Sleep: invalid_grant''),
           \<lparr>token = None, this_userId = None,
            calls = [AuthCall (login_payload cfg_no_user)]\<rparr>)"
  by (simp add: getUsers_def authenticate_def send_eq settle_def error_detail_def truthy_def
        cfg_no_user_def s_fresh_def rejecting_def empty_body_def rethrow_def)

section \<open>The calls of a request\<close>

lemma request_unfold: "request cfg w s rc = request_body request cfg w s rc"
  by (rule request.simps)

lemma request_interceptor_results:
  assumes "request_interceptor cfg w s rc = (x, s1)"
  shows "(\<exists>m. x = Inl (Error m)
            \<and> (s1 = s \<or> s1 = s\<lparr>calls := calls s @ [AuthCall (login_payload cfg)]\<rparr>))
       \<or> (\<exists>t. x = Inr (rc\<lparr>authorization := Some (''Bearer '' @ t)\<rparr>) \<and> token s1 = Some t \<and> t \<noteq> []
            \<and> (calls s1 = calls s \<or> calls s1 = calls s @ [AuthCall (login_payload cfg)]))"
proof (cases "truthy (token s)")
  case True
  then obtain t where t: "token s = Some t" "t \<noteq> []"
    by (auto simp add: truthy_def split: option.splits)
  from assms request_interceptor_held [OF t, of cfg w rc] t show ?thesis by auto
next
  case False
  obtain r' s' where a: "authenticate cfg w s = (r', s')"
    by (cases "authenticate cfg w s") auto
  from authenticate_results [OF a] assms a False show ?thesis
    by (auto simp add: request_interceptor_def bearer_def truthy_def split: option.splits)
qed

lemma request_body_refused:
  assumes "request_interceptor cfg w s rc = (Inl e, s1)"
  shows "request_body req cfg w s rc = Some (Inl e, s1)"
  using request_interceptor_results [OF assms] assms by auto

lemma request_body_sent:
  assumes "request_interceptor cfg w s rc = (Inr rc1, s1)"
  shows "request_body req cfg w s rc =
     (case w (calls s1 @ [ApiCall rc1]) of
        NoReply m \<Rightarrow>
          Some (Inl (AxiosError None m (Some rc1)), s1\<lparr>calls := calls s1 @ [ApiCall rc1]\<rparr>)
      | Reply st b \<Rightarrow>
          if 200 \<le> st \<and> st < 300 then
            Some (Inr \<lparr>status = st, rsp_data = b\<rparr>, s1\<lparr>calls := calls s1 @ [ApiCall rc1]\<rparr>)
          else if st = 401 then
            (case authenticate cfg w (s1\<lparr>calls := calls s1 @ [ApiCall rc1], token := None\<rparr>) of
               (Inl e, s3) \<Rightarrow> Some (Inl e, s3)
             | (Inr u, s3) \<Rightarrow> req cfg w s3 (bearer rc1 (token s3)))
          else
            Some (Inl (AxiosError (Some \<lparr>status = st, rsp_data = b\<rparr>)
                         (''Request failed with status code '' @ string_of_nat st) (Some rc1)),
                  s1\<lparr>calls := calls s1 @ [ApiCall rc1]\<rparr>))"
proof (cases "w (calls s1 @ [ApiCall rc1])")
  case (NoReply m)
  then show ?thesis by (simp add: assms send_eq settle_def)
next
  case (Reply st b)
  obtain r3 s3 where a:
    "authenticate cfg w (s1\<lparr>calls := calls s1 @ [ApiCall rc1], token := None\<rparr>) = (r3, s3)"
    by (cases "authenticate cfg w (s1\<lparr>calls := calls s1 @ [ApiCall rc1], token := None\<rparr>)") auto
  from authenticate_results [OF a] have "(\<exists>e. r3 = Inl e) \<or> (r3 = Inr () \<and> truthy (token s3))"
    by auto
  then show ?thesis
    using Reply a by (auto simp add: assms send_eq settle_def)
qed

lemma login_or_attempt_header [simp]:
  "login_or_attempt cfg (rc\<lparr>authorization := a\<rparr>) = login_or_attempt cfg rc"
proof
  fix c
  show "login_or_attempt cfg (rc\<lparr>authorization := a\<rparr>) c = login_or_attempt cfg rc c"
    by (cases c) simp_all
qed

lemma login_or_attempt_bearer [simp]:
  "login_or_attempt cfg (bearer rc tok) = login_or_attempt cfg rc"
  by (simp add: bearer_def split: option.splits)


text \<open>
  Whatever a request returns, it has only added calls to the log, each a login or an
  attempt of the request itself; and when it returns a response, a token is held.
\<close>

lemma request_trace_pair:
  assumes "request cfg w s rc = Some y"
  shows "(\<exists>new. calls (snd y) = calls s @ new \<and> list_all (login_or_attempt cfg rc) new)
      \<and> (\<forall>rsp. fst y = Inr rsp \<longrightarrow> truthy (token (snd y)))"
proof (rule request.raw_induct
    [where P = "\<lambda>cfg w s rc y.
        (\<exists>new. calls (snd y) = calls s @ new \<and> list_all (login_or_attempt cfg rc) new)
        \<and> (\<forall>rsp. fst y = Inr rsp \<longrightarrow> truthy (token (snd y)))",
     OF _ assms])
  fix req cfg w s rc y
  assume IH: "\<And>cfg w s rc y. req cfg w s rc = Some y \<Longrightarrow>
        (\<exists>new. calls (snd y) = calls s @ new \<and> list_all (login_or_attempt cfg rc) new)
        \<and> (\<forall>rsp. fst y = Inr rsp \<longrightarrow> truthy (token (snd y)))"
    and unfolded: "request_body req cfg w s rc = Some y"
  obtain x s1 where i: "request_interceptor cfg w s rc = (x, s1)"
    by (cases "request_interceptor cfg w s rc") auto
  from request_interceptor_results [OF i] consider
    (refused) m where "x = Inl (Error m)"
      "s1 = s \<or> s1 = s\<lparr>calls := calls s @ [AuthCall (login_payload cfg)]\<rparr>"
  | (sent) t where "x = Inr (rc\<lparr>authorization := Some (''Bearer '' @ t)\<rparr>)"
      "token s1 = Some t" "t \<noteq> []"
      "calls s1 = calls s \<or> calls s1 = calls s @ [AuthCall (login_payload cfg)]"
    by blast
  then show "(\<exists>new. calls (snd y) = calls s @ new \<and> list_all (login_or_attempt cfg rc) new)
        \<and> (\<forall>rsp. fst y = Inr rsp \<longrightarrow> truthy (token (snd y)))"
  proof cases
    case refused
    note x = refused(1) and s1 = refused(2)
    have "y = (Inl (Error m), s1)"
      using unfolded request_body_refused [OF i [unfolded x], of req] by simp
    then show ?thesis using s1 by auto
  next
    case sent
    note x = sent(1) and t = sent(2,3) and c1 = sent(4)
    define rc1 where "rc1 = rc\<lparr>authorization := Some (''Bearer '' @ t)\<rparr>"
    define s2 where "s2 = s1\<lparr>calls := calls s1 @ [ApiCall rc1]\<rparr>"
    have a1: "login_or_attempt cfg rc (ApiCall rc1)"
      by (simp add: rc1_def)
    have a2: "login_or_attempt cfg rc1 = login_or_attempt cfg rc"
      by (simp add: rc1_def)
    have pre: "\<exists>pre. calls s2 = calls s @ pre \<and> list_all (login_or_attempt cfg rc) pre"
      using c1 a1 by (auto simp add: s2_def)
    have tok2: "truthy (token s2)"
      using t by (simp add: s2_def truthy_def)
    note b = request_body_sent [OF i [unfolded x, folded rc1_def], of req, folded s2_def]
    show ?thesis
    proof (cases "w (calls s1 @ [ApiCall rc1])")
      case (NoReply m)
      then have "snd y = s2 \<and> (\<exists>e. fst y = Inl e)"
        using unfolded b by (auto simp add: s2_def)
      then show ?thesis using pre by auto
    next
      case (Reply st bd)
      obtain r3 s3 where a: "authenticate cfg w (s2\<lparr>token := None\<rparr>) = (r3, s3)"
        by (cases "authenticate cfg w (s2\<lparr>token := None\<rparr>)") auto
      have a': "authenticate cfg w (s1\<lparr>calls := calls s1 @ [ApiCall rc1], token := None\<rparr>) = (r3, s3)"
        using a by (simp add: s2_def)
      from authenticate_results [OF a]
      have c3: "\<exists>pre. calls s3 = calls s @ pre \<and> list_all (login_or_attempt cfg rc) pre"
        using pre by auto
      have "snd y = s2 \<or> (snd y = s3 \<and> (\<exists>e. fst y = Inl e))
          \<or> req cfg w s3 (bearer rc1 (token s3)) = Some y"
        using unfolded b Reply a' by (auto simp add: s2_def split: if_splits sum.splits)
      then show ?thesis
      proof (elim disjE)
        assume "snd y = s2"
        then show ?thesis using pre tok2 by auto
      next
        assume "snd y = s3 \<and> (\<exists>e. fst y = Inl e)"
        then show ?thesis using c3 by auto
      next
        assume "req cfg w s3 (bearer rc1 (token s3)) = Some y"
        from IH [OF this] c3 a2 show ?thesis by auto
      qed
    qed
  qed
qed

lemma request_trace:
  assumes "request cfg w s rc = Some (r, s')"
  shows "\<exists>new. calls s' = calls s @ new \<and> list_all (login_or_attempt cfg rc) new"
  using request_trace_pair [OF assms] by simp

lemma request_token:
  assumes "request cfg w s rc = Some (Inr rsp, s')"
  shows "\<exists>t. token s' = Some t \<and> t \<noteq> []"
  using request_trace_pair [OF assms] by (auto simp add: truthy_def split: option.splits)

text \<open>A request refused by the request interceptor (a failed login) issues nothing more.\<close>

lemma request_refused:
  assumes "request_interceptor cfg w s rc = (Inl e, s1)"
  shows "request cfg w s rc = Some (Inl e, s1)"
  by (subst request_unfold) (rule request_body_refused [OF assms])

text \<open>Once the request interceptor has passed, the attempt is the next call.\<close>

lemma request_first_attempt:
  assumes "request_interceptor cfg w s rc = (Inr rc1, s1)"
    and "request cfg w s rc = Some (r, s')"
  shows "\<exists>rest. calls s' = calls s1 @ ApiCall rc1 # rest \<and> list_all (login_or_attempt cfg rc) rest"
proof -
  define s2 where "s2 = s1\<lparr>calls := calls s1 @ [ApiCall rc1]\<rparr>"
  note b = request_body_sent [OF assms(1), of request, folded request_unfold, folded s2_def]
  have rc1: "login_or_attempt cfg rc1 = login_or_attempt cfg rc"
    using request_interceptor_results [OF assms(1)] by auto
  show ?thesis
  proof (cases "w (calls s1 @ [ApiCall rc1])")
    case (NoReply m)
    then have "s' = s2" using assms(2) b by (auto simp add: s2_def)
    then show ?thesis by (simp add: s2_def)
  next
    case (Reply st bd)
    obtain r3 s3 where a: "authenticate cfg w (s2\<lparr>token := None\<rparr>) = (r3, s3)"
      by (cases "authenticate cfg w (s2\<lparr>token := None\<rparr>)") auto
    have a': "authenticate cfg w (s1\<lparr>calls := calls s1 @ [ApiCall rc1], token := None\<rparr>) = (r3, s3)"
      using a by (simp add: s2_def)
    from authenticate_results [OF a]
    have c3: "\<exists>pre. calls s3 = calls s1 @ ApiCall rc1 # pre \<and> list_all (login_or_attempt cfg rc) pre"
      by (auto simp add: s2_def)
    have "s' = s2 \<or> s' = s3 \<or> request cfg w s3 (bearer rc1 (token s3)) = Some (r, s')"
      using assms(2) b Reply a' by (auto simp add: s2_def split: if_splits sum.splits)
    then show ?thesis
    proof (elim disjE)
      assume "s' = s2"
      then show ?thesis by (simp add: s2_def)
    next
      assume "s' = s3"
      then show ?thesis using c3 by simp
    next
      assume "request cfg w s3 (bearer rc1 (token s3)) = Some (r, s')"
      from request_trace [OF this] c3 rc1 show ?thesis by auto
    qed
  qed
qed

text \<open>An attempt answered with a 2xx status is the request's only call.\<close>

lemma request_direct:
  assumes "request_interceptor cfg w s rc = (Inr rc1, s1)"
    and "w (calls s1 @ [ApiCall rc1]) = Reply st b" "200 \<le> st" "st < 300"
  shows "request cfg w s rc =
    Some (Inr \<lparr>status = st, rsp_data = b\<rparr>, s1\<lparr>calls := calls s1 @ [ApiCall rc1]\<rparr>)"
  using request_body_sent [OF assms(1), of request, folded request_unfold] assms(2-) by simp

section \<open>Setting the temperature\<close>

lemma setTemperature_invalid:
  assumes "level < - 100 \<or> 100 < level"
  shows "setTemperature cfg w s userId level duration =
    Some (Inl (Error ''Temperature level must be between -100 and 100''), s)"
  using assms by (auto simp add: setTemperature_def Let_def)

lemma client_put_level:
  "client_put cfg w s (''/users/'' @ userId @ ''/temperature'') (CurrentLevel level) =
     request cfg w s (level_request userId level)"
  by (simp add: client_put_def level_request_def)

lemma client_put_duration:
  "client_put cfg w s (''/users/'' @ userId @ ''/temperature'') (TimeBased level dur) =
     request cfg w s (duration_request userId level dur)"
  by (simp add: client_put_def duration_request_def)

lemma setTemperature_valid:
  assumes "- 100 \<le> level" "level \<le> 100"
    and "dur = (case duration of None \<Rightarrow> 0 | Some d \<Rightarrow> d)"
  shows "setTemperature cfg w s userId level duration =
     (case request cfg w s (level_request userId level) of
        None \<Rightarrow> None
      | Some (Inl e, s1) \<Rightarrow> Some (Inl (rethrow ''Failed to set temperature: '' e), s1)
      | Some (Inr r1, s1) \<Rightarrow>
          if 0 < dur then
            (case request cfg w s1 (duration_request userId level dur) of
               None \<Rightarrow> None
             | Some (Inl e, s2) \<Rightarrow> Some (Inl (rethrow ''Failed to set temperature: '' e), s2)
             | Some (Inr r2, s2) \<Rightarrow> Some (Inr ''Temperature updated successfully'', s2))
          else Some (Inr ''Temperature updated successfully'', s1))"
  unfolding setTemperature_def setTempLevel_def Let_def client_put_level client_put_duration
    option.case assms(3)
  using assms(1,2) by simp

lemma setTemperature_refused:
  assumes "- 100 \<le> level" "level \<le> 100"
    and "dur = (case duration of None \<Rightarrow> 0 | Some d \<Rightarrow> d)"
    and "request_interceptor cfg w s (level_request userId level) = (Inl e, s1)"
  shows "setTemperature cfg w s userId level duration = Some (Inl e, s1)
    \<and> (calls s1 = calls s \<or> calls s1 = calls s @ [AuthCall (login_payload cfg)])"
proof -
  from request_interceptor_results [OF assms(4)] obtain m where
    e: "e = Error m" and c: "calls s1 = calls s \<or> calls s1 = calls s @ [AuthCall (login_payload cfg)]"
    by auto
  show ?thesis
    using c by (simp add: setTemperature_valid [OF assms(1-3)] request_refused [OF assms(4)] e)
qed

lemma setTemperature_level_request:
  assumes "- 100 \<le> level" "level \<le> 100"
    and "dur = (case duration of None \<Rightarrow> 0 | Some d \<Rightarrow> d)"
    and "request_interceptor cfg w s (level_request userId level) = (Inr rc1, s1)"
    and "setTemperature cfg w s userId level duration = Some (r, s')"
  shows "(\<exists>t. token s1 = Some t \<and> t \<noteq> []
            \<and> rc1 = (level_request userId level)\<lparr>authorization := Some (''Bearer '' @ t)\<rparr>)
    \<and> (\<exists>rest. calls s' = calls s1 @ ApiCall rc1 # rest)"
proof -
  have h: "\<exists>t. token s1 = Some t \<and> t \<noteq> []
            \<and> rc1 = (level_request userId level)\<lparr>authorization := Some (''Bearer '' @ t)\<rparr>"
    using request_interceptor_results [OF assms(4)] by auto
  note v = assms(5) [unfolded setTemperature_valid [OF assms(1-3)]]
  obtain r0 s0 where q: "request cfg w s (level_request userId level) = Some (r0, s0)"
    using v by (cases "request cfg w s (level_request userId level)") auto
  from request_first_attempt [OF assms(4) q] obtain rest0 where
    c0: "calls s0 = calls s1 @ ApiCall rc1 # rest0" by blast
  have "s' = s0 \<or> (\<exists>r2. request cfg w s0 (duration_request userId level dur) = Some (r2, s'))"
    using v by (auto simp add: q split: sum.splits if_splits option.splits)
  then have "\<exists>rest. calls s' = calls s1 @ ApiCall rc1 # rest"
  proof (elim disjE exE)
    assume "s' = s0"
    then show ?thesis using c0 by simp
  next
    fix r2
    assume "request cfg w s0 (duration_request userId level dur) = Some (r2, s')"
    from request_trace [OF this] c0 show ?thesis by auto
  qed
  then show ?thesis using h by blast
qed

lemma setTemperature_duration_request:
  assumes "- 100 \<le> level" "level \<le> 100"
    and "dur = (case duration of None \<Rightarrow> 0 | Some d \<Rightarrow> d)"
    and "0 < dur"
    and "request cfg w s (level_request userId level) = Some (Inr r1, s1)"
    and "setTemperature cfg w s userId level duration = Some (r, s')"
  shows "\<exists>t rest. token s1 = Some t \<and> calls s' = calls s1 @
      ApiCall ((duration_request userId level dur)\<lparr>authorization := Some (''Bearer '' @ t)\<rparr>) # rest"
proof -
  from request_token [OF assms(5)] obtain t where t: "token s1 = Some t" "t \<noteq> []"
    by blast
  note i = request_interceptor_held [OF t, of cfg w "duration_request userId level dur"]
  note v = assms(6) [unfolded setTemperature_valid [OF assms(1-3)]]
  have "\<exists>r2. request cfg w s1 (duration_request userId level dur) = Some (r2, s')"
    using v assms(4) by (auto simp add: assms(5) split: sum.splits option.splits)
  then obtain r2 where "request cfg w s1 (duration_request userId level dur) = Some (r2, s')"
    by blast
  from request_first_attempt [OF i this] t(1) show ?thesis by blast
qed

lemma setTemperature_level_only:
  assumes "- 100 \<le> level" "level \<le> 100"
    and "dur = (case duration of None \<Rightarrow> 0 | Some d \<Rightarrow> d)"
    and "dur \<le> 0 \<or> (\<forall>r1 s1. request cfg w s (level_request userId level) \<noteq> Some (Inr r1, s1))"
    and "setTemperature cfg w s userId level duration = Some (r, s')"
  shows "\<exists>new. calls s' = calls s @ new
    \<and> list_all (login_or_attempt cfg (level_request userId level)) new"
proof -
  note v = assms(5) [unfolded setTemperature_valid [OF assms(1-3)]]
  obtain r0 s0 where q: "request cfg w s (level_request userId level) = Some (r0, s0)"
    using v by (cases "request cfg w s (level_request userId level)") auto
  have "s' = s0"
    using v assms(4) by (auto simp add: q split: sum.splits if_splits)
  then show ?thesis using request_trace [OF q] by simp
qed

lemma setTemperature_direct:
  assumes "- 100 \<le> level" "level \<le> 100"
    and "dur = (case duration of None \<Rightarrow> 0 | Some d \<Rightarrow> d)"
    and "request_interceptor cfg w s (level_request userId level) = (Inr rc1, s1)"
    and "w (calls s1 @ [ApiCall rc1]) = Reply st1 b1" "200 \<le> st1" "st1 < 300"
  shows "(dur \<le> 0 \<longrightarrow>
       setTemperature cfg w s userId level duration =
         Some (Inr ''Temperature updated successfully'', s1\<lparr>calls := calls s1 @ [ApiCall rc1]\<rparr>))
    \<and> (0 < dur
        \<and> w (calls s1 @ [ApiCall rc1, ApiCall (rc1\<lparr>rq_data := TimeBased level dur\<rparr>)]) = Reply st2 b2
        \<and> 200 \<le> st2 \<and> st2 < 300 \<longrightarrow>
       setTemperature cfg w s userId level duration =
         Some (Inr ''Temperature updated successfully'',
               s1\<lparr>calls := calls s1 @ [ApiCall rc1, ApiCall (rc1\<lparr>rq_data := TimeBased level dur\<rparr>)]\<rparr>))"
proof -
  define s2 where "s2 = s1\<lparr>calls := calls s1 @ [ApiCall rc1]\<rparr>"
  from request_interceptor_results [OF assms(4)] obtain t where
    t: "token s1 = Some t" "t \<noteq> []"
    and rc1: "rc1 = (level_request userId level)\<lparr>authorization := Some (''Bearer '' @ t)\<rparr>"
    by auto
  have q1: "request cfg w s (level_request userId level) =
      Some (Inr \<lparr>status = st1, rsp_data = b1\<rparr>, s2)"
    unfolding s2_def by (rule request_direct [OF assms(4-7)])
  have t2: "token s2 = Some t" using t by (simp add: s2_def)
  have d: "(duration_request userId level dur)\<lparr>authorization := Some (''Bearer '' @ t)\<rparr> =
      rc1\<lparr>rq_data := TimeBased level dur\<rparr>"
    by (simp add: rc1 duration_request_def level_request_def)
  note i = request_interceptor_held [OF t2 t(2), of cfg w "duration_request userId level dur",
      unfolded d]
  have a: "dur \<le> 0 \<longrightarrow>
       setTemperature cfg w s userId level duration =
         Some (Inr ''Temperature updated successfully'', s2)"
    by (simp add: setTemperature_valid [OF assms(1-3)] q1)
  have b: "0 < dur
        \<and> w (calls s2 @ [ApiCall (rc1\<lparr>rq_data := TimeBased level dur\<rparr>)]) = Reply st2 b2
        \<and> 200 \<le> st2 \<and> st2 < 300 \<longrightarrow>
       setTemperature cfg w s userId level duration =
         Some (Inr ''Temperature updated successfully'',
               s2\<lparr>calls := calls s2 @ [ApiCall (rc1\<lparr>rq_data := TimeBased level dur\<rparr>)]\<rparr>)"
  proof (intro impI, elim conjE)
    assume p: "0 < dur"
      and g: "w (calls s2 @ [ApiCall (rc1\<lparr>rq_data := TimeBased level dur\<rparr>)]) = Reply st2 b2"
      "200 \<le> st2" "st2 < 300"
    from request_direct [OF i g]
    show "setTemperature cfg w s userId level duration =
         Some (Inr ''Temperature updated successfully'',
               s2\<lparr>calls := calls s2 @ [ApiCall (rc1\<lparr>rq_data := TimeBased level dur\<rparr>)]\<rparr>)"
      using p by (simp add: setTemperature_valid [OF assms(1-3)] q1)
  qed
  show ?thesis using a b by (simp add: s2_def)
qed


text \<open>
  Claim C3, as amended. A level below -100 or above 100 fails with the validation error
  and leaves the state unchanged, so no network call is issued. A level within the
  bounds goes to the client, in every state of the client and for every vendor:

  \<^item> when the request interceptor fails (no token is held and the login fails), the call
    fails with the login's error and nothing but that login, if any, has been issued;
  \<^item> when the request interceptor passes and the call returns, the level-set request,
    carrying the bearer token, has been issued right after the interceptor;
  \<^item> when the level-set request has succeeded, the duration is above 0 and the call
    returns, the duration request has been issued right after it, with the bearer token;
  \<^item> when the duration is 0 or less (or none is given), or the level-set request has not
    succeeded, every call issued is a login or an attempt of the level-set request;
  \<^item> when the vendor answers the level-set request with a 2xx status, the call succeeds
    with that request as its only call for a duration of 0 or less, and with the
    duration request as the only further call, once that is answered 2xx too.
\<close>

theorem setTemperature_requests:
  assumes "dur = (case duration of None \<Rightarrow> 0 | Some d \<Rightarrow> d)"
  shows "(level < - 100 \<or> 100 < level \<longrightarrow>
      setTemperature cfg w s userId level duration =
        Some (Inl (Error ''Temperature level must be between -100 and 100''), s))
   \<and> (- 100 \<le> level \<and> level \<le> 100 \<longrightarrow>
       (request_interceptor cfg w s (level_request userId level) = (Inl e, s1) \<longrightarrow>
          setTemperature cfg w s userId level duration = Some (Inl e, s1)
          \<and> (calls s1 = calls s \<or> calls s1 = calls s @ [AuthCall (login_payload cfg)]))
     \<and> (request_interceptor cfg w s (level_request userId level) = (Inr rc1, s1)
          \<and> setTemperature cfg w s userId level duration = Some (r, s') \<longrightarrow>
          (\<exists>t. token s1 = Some t \<and> t \<noteq> []
             \<and> rc1 = (level_request userId level)\<lparr>authorization := Some (''Bearer '' @ t)\<rparr>)
          \<and> (\<exists>rest. calls s' = calls s1 @ ApiCall rc1 # rest))
     \<and> (0 < dur \<and> request cfg w s (level_request userId level) = Some (Inr r1, s2)
          \<and> setTemperature cfg w s userId level duration = Some (r, s') \<longrightarrow>
          (\<exists>t rest. token s2 = Some t \<and> calls s' = calls s2 @
             ApiCall ((duration_request userId level dur)\<lparr>authorization := Some (''Bearer '' @ t)\<rparr>)
               # rest))
     \<and> ((dur \<le> 0 \<or> (\<forall>x y. request cfg w s (level_request userId level) \<noteq> Some (Inr x, y)))
          \<and> setTemperature cfg w s userId level duration = Some (r, s') \<longrightarrow>
          (\<exists>new. calls s' = calls s @ new
             \<and> list_all (login_or_attempt cfg (level_request userId level)) new))
     \<and> (request_interceptor cfg w s (level_request userId level) = (Inr rc1, s1)
          \<and> w (calls s1 @ [ApiCall rc1]) = Reply st1 b1 \<and> 200 \<le> st1 \<and> st1 < 300 \<longrightarrow>
          (dur \<le> 0 \<longrightarrow>
             setTemperature cfg w s userId level duration =
               Some (Inr ''Temperature updated successfully'',
                     s1\<lparr>calls := calls s1 @ [ApiCall rc1]\<rparr>))
          \<and> (0 < dur
              \<and> w (calls s1 @ [ApiCall rc1, ApiCall (rc1\<lparr>rq_data := TimeBased level dur\<rparr>)]) =
                  Reply st2 b2
              \<and> 200 \<le> st2 \<and> st2 < 300 \<longrightarrow>
             setTemperature cfg w s userId level duration =
               Some (Inr ''Temperature updated successfully'',
                     s1\<lparr>calls := calls s1 @ [ApiCall rc1,
                                               ApiCall (rc1\<lparr>rq_data := TimeBased level dur\<rparr>)]\<rparr>))))"
proof -
  have a: "level < - 100 \<or> 100 < level \<longrightarrow>
      setTemperature cfg w s userId level duration =
        Some (Inl (Error ''Temperature level must be between -100 and 100''), s)"
    using setTemperature_invalid by blast
  have b: "- 100 \<le> level \<and> level \<le> 100 \<longrightarrow>
       (request_interceptor cfg w s (level_request userId level) = (Inl e, s1) \<longrightarrow>
          setTemperature cfg w s userId level duration = Some (Inl e, s1)
          \<and> (calls s1 = calls s \<or> calls s1 = calls s @ [AuthCall (login_payload cfg)]))"
    using setTemperature_refused [OF _ _ assms] by blast
  have c: "- 100 \<le> level \<and> level \<le> 100 \<longrightarrow>
       (request_interceptor cfg w s (level_request userId level) = (Inr rc1, s1)
          \<and> setTemperature cfg w s userId level duration = Some (r, s') \<longrightarrow>
          (\<exists>t. token s1 = Some t \<and> t \<noteq> []
             \<and> rc1 = (level_request userId level)\<lparr>authorization := Some (''Bearer '' @ t)\<rparr>)
          \<and> (\<exists>rest. calls s' = calls s1 @ ApiCall rc1 # rest))"
    using setTemperature_level_request [OF _ _ assms] by blast
  have d: "- 100 \<le> level \<and> level \<le> 100 \<longrightarrow>
       (0 < dur \<and> request cfg w s (level_request userId level) = Some (Inr r1, s2)
          \<and> setTemperature cfg w s userId level duration = Some (r, s') \<longrightarrow>
          (\<exists>t rest. token s2 = Some t \<and> calls s' = calls s2 @
             ApiCall ((duration_request userId level dur)\<lparr>authorization := Some (''Bearer '' @ t)\<rparr>)
               # rest))"
    using setTemperature_duration_request [OF _ _ assms] by blast
  have e: "- 100 \<le> level \<and> level \<le> 100 \<longrightarrow>
       ((dur \<le> 0 \<or> (\<forall>x y. request cfg w s (level_request userId level) \<noteq> Some (Inr x, y)))
          \<and> setTemperature cfg w s userId level duration = Some (r, s') \<longrightarrow>
          (\<exists>new. calls s' = calls s @ new
             \<and> list_all (login_or_attempt cfg (level_request userId level)) new))"
    using setTemperature_level_only [OF _ _ assms] by blast
  have f: "- 100 \<le> level \<and> level \<le> 100 \<longrightarrow>
       (request_interceptor cfg w s (level_request userId level) = (Inr rc1, s1)
          \<and> w (calls s1 @ [ApiCall rc1]) = Reply st1 b1 \<and> 200 \<le> st1 \<and> st1 < 300 \<longrightarrow>
          (dur \<le> 0 \<longrightarrow>
             setTemperature cfg w s userId level duration =
               Some (Inr ''Temperature updated successfully'',
                     s1\<lparr>calls := calls s1 @ [ApiCall rc1]\<rparr>))
          \<and> (0 < dur
              \<and> w (calls s1 @ [ApiCall rc1, ApiCall (rc1\<lparr>rq_data := TimeBased level dur\<rparr>)]) =
                  Reply st2 b2
              \<and> 200 \<le> st2 \<and> st2 < 300 \<longrightarrow>
             setTemperature cfg w s userId level duration =
               Some (Inr ''Temperature updated successfully'',
                     s1\<lparr>calls := calls s1 @ [ApiCall rc1,
                                               ApiCall (rc1\<lparr>rq_data := TimeBased level dur\<rparr>)]\<rparr>)))"
    using setTemperature_direct [OF _ _ assms, where ?rc1.0 = rc1 and ?s1.0 = s1 and ?st1.0 = st1
        and ?b1.0 = b1 and ?st2.0 = st2 and ?b2.0 = b2]
    by blast
  show ?thesis
    using a b c d e f by blast
qed

lemma request_interceptor_fresh_example:
  "request_interceptor cfg_ok (granting d) s_fresh rc =
     (Inr (rc\<lparr>authorization := Some ''Bearer tok''\<rparr>),
      \<lparr>token = Some ''tok'', this_userId = Some ''u1'',
       calls = [AuthCall (login_payload cfg_ok)]\<rparr>)"
  by (simp add: request_interceptor_def authenticate_def send_eq settle_def truthy_def bearer_def
      granting_def always_def s_fresh_def cfg_ok_def)

theorem setTemperature_requests_witness:
  "setTemperature cfg_ok (granting empty_body) s_fresh ''u1'' 150 None =
      Some (Inl (Error ''Temperature level must be between -100 and 100''), s_fresh)
   \<and> setTemperature cfg_ok (granting empty_body) s_fresh ''u1'' 40 (Some 0) =
      Some (Inr ''Temperature updated successfully'',
            \<lparr>token = Some ''tok'', this_userId = Some ''u1'',
             calls = [AuthCall (login_payload cfg_ok),
                      put_call ''u1'' (CurrentLevel 40) ''tok'']\<rparr>)
   \<and> setTemperature cfg_ok (granting empty_body) s_fresh ''u1'' (- 100) (Some 3600) =
      Some (Inr ''Temperature updated successfully'',
            \<lparr>token = Some ''tok'', this_userId = Some ''u1'',
             calls = [AuthCall (login_payload cfg_ok),
                      put_call ''u1'' (CurrentLevel (- 100)) ''tok'',
                      put_call ''u1'' (TimeBased (- 100) 3600) ''tok'']\<rparr>)"
proof -
  define s1 where "s1 = \<lparr>token = Some ''tok'', this_userId = Some ''u1'',
      calls = [AuthCall (login_payload cfg_ok)]\<rparr>"
  have i: "request_interceptor cfg_ok (granting empty_body) s_fresh (level_request ''u1'' level) =
      (Inr ((level_request ''u1'' level)\<lparr>authorization := Some ''Bearer tok''\<rparr>), s1)" for level
    unfolding s1_def by (rule request_interceptor_fresh_example)
  have g: "granting empty_body cs = Reply 200 (empty_body\<lparr>access_token := Some ''tok''\<rparr>)" for cs
    by (simp add: granting_def always_def)
  have a: "setTemperature cfg_ok (granting empty_body) s_fresh ''u1'' 150 None =
      Some (Inl (Error ''Temperature level must be between -100 and 100''), s_fresh)"
    using setTemperature_requests [where level = 150 and cfg = cfg_ok
        and w = "granting empty_body" and s = s_fresh and userId = "''u1''" and duration = None
        and dur = 0]
    by simp
  have b: "setTemperature cfg_ok (granting empty_body) s_fresh ''u1'' 40 (Some 0) =
      Some (Inr ''Temperature updated successfully'',
            s1\<lparr>calls := calls s1 @
              [ApiCall ((level_request ''u1'' 40)\<lparr>authorization := Some ''Bearer tok''\<rparr>)]\<rparr>)"
    using setTemperature_requests [where level = 40 and cfg = cfg_ok
        and w = "granting empty_body" and s = s_fresh and userId = "''u1''"
        and duration = "Some 0" and dur = 0
        and ?rc1.0 = "(level_request ''u1'' 40)\<lparr>authorization := Some ''Bearer tok''\<rparr>"
        and ?s1.0 = s1 and ?st1.0 = 200
        and ?b1.0 = "empty_body\<lparr>access_token := Some ''tok''\<rparr>"]
      i [of 40] g
    by simp
  have c: "setTemperature cfg_ok (granting empty_body) s_fresh ''u1'' (- 100) (Some 3600) =
      Some (Inr ''Temperature updated successfully'',
            s1\<lparr>calls := calls s1 @
              [ApiCall ((level_request ''u1'' (- 100))\<lparr>authorization := Some ''Bearer tok''\<rparr>),
               ApiCall ((level_request ''u1'' (- 100))\<lparr>authorization := Some ''Bearer tok'',
                          rq_data := TimeBased (- 100) 3600\<rparr>)]\<rparr>)"
    using setTemperature_requests [where level = "- 100" and cfg = cfg_ok
        and w = "granting empty_body" and s = s_fresh and userId = "''u1''"
        and duration = "Some 3600" and dur = 3600
        and ?rc1.0 = "(level_request ''u1'' (- 100))\<lparr>authorization := Some ''Bearer tok''\<rparr>"
        and ?s1.0 = s1 and ?st1.0 = 200
        and ?b1.0 = "empty_body\<lparr>access_token := Some ''tok''\<rparr>"
        and ?st2.0 = 200 and ?b2.0 = "empty_body\<lparr>access_token := Some ''tok''\<rparr>"]
      i [of "- 100"] g
    by simp
  show ?thesis
    using a b c by (simp add: s1_def put_call_def level_request_def)
qed

text \<open>
  Claim C3 as stated fails where the login fails and where the level-set request
  fails. With no password configured and no token held, a level within the bounds
  issues no request at all; and when the vendor answers the level-set request with
  status 500, a duration above 0 issues no duration request.
\<close>

theorem setTemperature_requests_counterexample:
  "setTemperature cfg_no_password (always empty_body) s_fresh ''u1'' 40 (Some 3600) =
      Some (Inl (Error ''Missing required credentials. Please check your .env file for EIGHT_SLEEP_EMAIL and EIGHT_SLEEP_PASSWORD''), s_fresh)
   \<and> calls s_fresh = []
   \<and> setTemperature cfg_ok failing s_held ''u1'' 40 (Some 3600) =
      Some (Inl (Error ''Failed to set temperature: Request failed with status code 500''),
            s_held\<lparr>calls := [put_call ''u1'' (CurrentLevel 40) ''old'']\<rparr>)"
proof -
  have m: "request cfg_no_password (always empty_body) s_fresh (level_request ''u1'' 40) =
      Some (Inl (Error ''Missing required credentials. Please check your .env file for EIGHT_SLEEP_EMAIL and EIGHT_SLEEP_PASSWORD''), s_fresh)"
    by (rule request_missing) (simp_all add: s_fresh_def truthy_def cfg_no_password_def)
  have i: "request_interceptor cfg_ok failing s_held (level_request ''u1'' 40) =
      (Inr ((level_request ''u1'' 40)\<lparr>authorization := Some (''Bearer '' @ ''old'')\<rparr>), s_held)"
    by (rule request_interceptor_held) (simp_all add: s_held_def)
  have c: "string_of_nat 500 = ''500''"
    by code_simp
  have f: "request cfg_ok failing s_held (level_request ''u1'' 40) =
      Some (Inl (AxiosError (Some \<lparr>status = 500, rsp_data = empty_body\<rparr>)
                   ''Request failed with status code 500''
                   (Some ((level_request ''u1'' 40)\<lparr>authorization := Some (''Bearer '' @ ''old'')\<rparr>))),
            s_held\<lparr>calls := [put_call ''u1'' (CurrentLevel 40) ''old'']\<rparr>)"
    using request_body_sent [OF i, of request, folded request_unfold]
    by (simp add: failing_def c s_held_def put_call_def level_request_def)
  have x: "setTemperature cfg_no_password (always empty_body) s_fresh ''u1'' 40 (Some 3600) =
      Some (Inl (Error ''Missing required credentials. Please check your .env file for EIGHT_SLEEP_EMAIL and EIGHT_SLEEP_PASSWORD''), s_fresh)"
    by (simp add: setTemperature_valid [where dur = 3600] m)
  have y: "setTemperature cfg_ok failing s_held ''u1'' 40 (Some 3600) =
      Some (Inl (Error ''Failed to set temperature: Request failed with status code 500''),
            s_held\<lparr>calls := [put_call ''u1'' (CurrentLevel 40) ''old'']\<rparr>)"
    by (simp add: setTemperature_valid [where dur = 3600] f rethrow_def error_detail_def
        empty_body_def)
  show ?thesis
    using x y by (simp add: s_fresh_def)
qed

section \<open>Recovery from an expired token\<close>

lemma bearer_bearer:
  "t \<noteq> [] \<Longrightarrow> bearer (bearer rc (Some t)) (Some t) = rc\<lparr>authorization := Some (''Bearer '' @ t)\<rparr>"
  by (simp add: bearer_def)

lemma request_interceptor_header:
  assumes "request_interceptor cfg w s rc = (Inr rc1, s1)"
  shows "\<exists>t. token s1 = Some t \<and> t \<noteq> [] \<and> rc1 = rc\<lparr>authorization := Some (''Bearer '' @ t)\<rparr>"
proof (cases "truthy (token s)")
  case True
  then obtain t where "token s = Some t" "t \<noteq> []"
    by (auto simp add: truthy_def split: option.splits)
  then show ?thesis
    using assms by (simp add: request_interceptor_held)
next
  case False
  obtain r s2 where a: "authenticate cfg w s = (r, s2)"
    by (cases "authenticate cfg w s") auto
  from authenticate_results [OF a] False assms a show ?thesis
    by (auto simp add: request_interceptor_def truthy_def bearer_def split: option.splits)
qed

text \<open>
  Claim C2. Let the first attempt of a request be issued from state \<open>s1\<close> with the
  configuration \<open>rc1\<close> that the request interceptor produced (\<open>s1 = s\<close> when a token was
  held). If the vendor answers it with 401, grants the following login a token \<open>t2\<close>,
  and accepts the retried request, then the caller observes the retried request's
  response; the token is cleared and replaced by \<open>t2\<close>; and after the first attempt
  exactly two calls are made: one login and one retry carrying the new token.
\<close>

theorem one_reauthentication:
  assumes "request_interceptor cfg w s rc = (Inr rc1, s1)"
    and "w (calls s1 @ [ApiCall rc1]) = Reply 401 b1"
    and "email cfg \<noteq> []" and "password cfg \<noteq> []"
    and "w (calls s1 @ [ApiCall rc1, AuthCall (login_payload cfg)]) = Reply st2 b2"
    and "200 \<le> st2" and "st2 < 300" and "access_token b2 = Some t2" and "t2 \<noteq> []"
    and "w (calls s1 @ [ApiCall rc1, AuthCall (login_payload cfg),
                         ApiCall (rc1\<lparr>authorization := Some (''Bearer '' @ t2)\<rparr>)]) = Reply st3 b3"
    and "200 \<le> st3" and "st3 < 300"
  shows "request cfg w s rc =
      Some (Inr \<lparr>status = st3, rsp_data = b3\<rparr>,
            s1\<lparr>token := Some t2, this_userId := Some (cfg_userId cfg),
               calls := calls s1 @ [ApiCall rc1, AuthCall (login_payload cfg),
                                    ApiCall (rc1\<lparr>authorization := Some (''Bearer '' @ t2)\<rparr>)]\<rparr>)
    \<and> (truthy (token s) \<longrightarrow> s1 = s)"
proof -
  let ?s2 = "s1\<lparr>calls := calls s1 @ [ApiCall rc1], token := None\<rparr>"
  let ?s3 = "?s2\<lparr>calls := calls ?s2 @ [AuthCall (login_payload cfg)], token := Some t2,
               this_userId := Some (cfg_userId cfg)\<rparr>"
  let ?rc2 = "rc1\<lparr>authorization := Some (''Bearer '' @ t2)\<rparr>"
  have auth: "authenticate cfg w ?s2 = (Inr (), ?s3)"
    using authenticate_ok [where s = ?s2 and w = w and cfg = cfg and st = st2 and d = b2
        and t = t2] assms(3-9)
    by simp
  have retry: "request cfg w ?s3 (bearer rc1 (Some t2)) =
      Some (Inr \<lparr>status = st3, rsp_data = b3\<rparr>, ?s3\<lparr>calls := calls ?s3 @ [ApiCall ?rc2]\<rparr>)"
    using request_ok [where s = ?s3 and t = t2 and w = w and rc = "bearer rc1 (Some t2)"
        and st = st3 and d = b3 and cfg = cfg] assms(9,10,11,12)
    by (simp add: bearer_def)
  have first: "request cfg w s rc = request cfg w ?s3 (bearer rc1 (Some t2))"
    using assms(2,9)
    by (subst request.simps)
       (simp add: assms(1) send_eq settle_def auth truthy_def)
  have held: "truthy (token s) \<longrightarrow> s1 = s"
    using assms(1) by (auto simp add: request_interceptor_def)
  show ?thesis
    using first retry held by simp
qed


theorem one_reauthentication_witness:
  "request cfg_ok (expired 1) s_held temperature_request =
     Some (Inr \<lparr>status = 200, rsp_data = empty_body\<rparr>,
           \<lparr>token = Some ''fresh'', this_userId = Some ''u1'',
            calls = [ApiCall (temperature_request\<lparr>authorization := Some ''Bearer old''\<rparr>),
                     AuthCall (login_payload cfg_ok),
                     ApiCall (temperature_request\<lparr>authorization := Some ''Bearer fresh''\<rparr>)]\<rparr>)"
proof -
  have i: "request_interceptor cfg_ok (expired 1) s_held temperature_request =
      (Inr (temperature_request\<lparr>authorization := Some ''Bearer old''\<rparr>), s_held)"
    using request_interceptor_held [of s_held "''old''" cfg_ok "expired 1" temperature_request]
    by (simp add: s_held_def)
  show ?thesis
    using one_reauthentication [OF i, where ?b1.0 = empty_body and ?st2.0 = 200
        and ?b2.0 = "empty_body\<lparr>access_token := Some ''fresh''\<rparr>" and ?t2.0 = "''fresh''"
        and ?st3.0 = 200 and ?b3.0 = empty_body]
    by (simp add: expired_def s_held_def cfg_ok_def)
qed

text \<open>
  Claim C1 does not hold of the code. The retried request goes through
  \<^verbatim>\<open>this.client.request\<close>, and so through the same response interceptor: a 401 on the
  retry clears the token, authenticates and retries again. With a vendor that answers the
  first two attempts with 401, the caller observes the third attempt's success, after two
  logins and two retries.
\<close>

theorem second_401_retried_again:
  "request cfg_ok (expired 2) s_held temperature_request =
     Some (Inr \<lparr>status = 200, rsp_data = empty_body\<rparr>,
           \<lparr>token = Some ''fresh'', this_userId = Some ''u1'',
            calls = [ApiCall (temperature_request\<lparr>authorization := Some ''Bearer old''\<rparr>),
                     AuthCall (login_payload cfg_ok),
                     ApiCall (temperature_request\<lparr>authorization := Some ''Bearer fresh''\<rparr>),
                     AuthCall (login_payload cfg_ok),
                     ApiCall (temperature_request\<lparr>authorization := Some ''Bearer fresh''\<rparr>)]\<rparr>)"
  apply (subst request.simps)
  apply (simp add: request_interceptor_def authenticate_def send_eq settle_def truthy_def
      bearer_def expired_def s_held_def cfg_ok_def empty_body_def)
  apply (subst request.simps)
  apply (simp add: request_interceptor_def authenticate_def send_eq settle_def truthy_def
      bearer_def expired_def s_held_def cfg_ok_def empty_body_def)
  apply (subst request.simps)
  apply (simp add: request_interceptor_def authenticate_def send_eq settle_def truthy_def
      bearer_def expired_def s_held_def cfg_ok_def empty_body_def)
  done

text \<open>
  While the vendor keeps answering 401 and keeps granting logins, the request never
  settles: every 401 starts another login and another attempt.
\<close>

lemma request_never_settles:
  assumes "email cfg \<noteq> []" and "password cfg \<noteq> []"
    and login: "\<And>cs. w (cs @ [AuthCall (login_payload cfg)]) = Reply 200 b"
    and "access_token b = Some t" and "t \<noteq> []"
    and api: "\<And>cs c. w (cs @ [ApiCall c]) = Reply 401 b'"
  shows "request cfg w s rc = None"
proof -
  have A: "authenticate cfg w s' =
      (Inr (), s'\<lparr>calls := calls s' @ [AuthCall (login_payload cfg)], token := Some t,
                  this_userId := Some (cfg_userId cfg)\<rparr>)" for s'
    using authenticate_ok [where cfg = cfg and w = w and s = s' and st = 200 and d = b and t = t]
      assms(1,2,4,5) login
    by simp
  have never: "cfg' = cfg \<and> w' = w \<longrightarrow> False" if "request cfg' w' s' rc' = Some y"
    for cfg' w' s' rc' y
  proof (rule request.raw_induct
      [where P = "\<lambda>cfg' w' s' rc' y. cfg' = cfg \<and> w' = w \<longrightarrow> False", OF _ that], intro impI)
    fix req cfg' w' s' rc' y
    assume IH: "\<And>cfg' w' s' rc' y. req cfg' w' s' rc' = Some y \<Longrightarrow> cfg' = cfg \<and> w' = w \<longrightarrow> False"
      and same: "cfg' = cfg \<and> w' = w"
      and unfolded: "(case (case request_interceptor cfg' w' s' rc' of
              (Inl e, s1) \<Rightarrow> (Inl e, s1)
            | (Inr rc1, s1) \<Rightarrow>
                (case send w' s1 (ApiCall rc1) of (r, s2) \<Rightarrow> (settle (Some rc1) r, s2))) of
        (Inr rsp, s2) \<Rightarrow> Some (Inr rsp, s2)
      | (Inl (AxiosError (Some rsp) m c), s2) \<Rightarrow>
          (if status rsp = 401 then
             (case authenticate cfg' w' (s2\<lparr>token := None\<rparr>) of
                (Inl e, s3) \<Rightarrow> Some (Inl e, s3)
              | (Inr u, s3) \<Rightarrow>
                  (case c of
                     Some rc2 \<Rightarrow>
                       if truthy (token s3) then req cfg' w' s3 (bearer rc2 (token s3))
                       else Some (Inl (AxiosError (Some rsp) m c), s3)
                   | None \<Rightarrow> Some (Inl (AxiosError (Some rsp) m c), s3)))
           else Some (Inl (AxiosError (Some rsp) m c), s2))
      | (Inl e, s2) \<Rightarrow> Some (Inl e, s2)) = Some y"
    have "\<exists>rc1 s1. request_interceptor cfg w s' rc' = (Inr rc1, s1)"
      by (simp add: request_interceptor_def A)
    then obtain rc1 s1 where i: "request_interceptor cfg w s' rc' = (Inr rc1, s1)"
      by blast
    let ?s3 = "s1\<lparr>calls := calls s1 @ [ApiCall rc1], token := None,
                  calls := calls s1 @ [ApiCall rc1, AuthCall (login_payload cfg)],
                  token := Some t, this_userId := Some (cfg_userId cfg)\<rparr>"
    have "req cfg w ?s3 (bearer rc1 (Some t)) = Some y"
      using unfolded same assms(5)
      by (simp add: i send_eq api settle_def A truthy_def)
    then show False
      using IH by blast
  qed
  show ?thesis
  proof (cases "request cfg w s rc")
    case None
    then show ?thesis .
  next
    case (Some y)
    from never [OF Some] show ?thesis by simp
  qed
qed

section \<open>The day after a calendar date\<close>























section \<open>The default end date\<close>















end
